theory Spec2Isabelle
  imports Main "HOL-Library.AList" "HOL-Library.Sublist"
begin

section \<open>JavaScript values\<close>

text \<open>
  The untyped values that flow through the ORM (\<^verbatim>\<open>any\<close> in the TypeScript source):
  where-predicates, row data, pending changes. Plain objects are association lists in
  insertion order, which is the order \<^verbatim>\<open>Object.keys\<close> and \<^verbatim>\<open>for ... in\<close> enumerate.
  Numbers are integers here; no claim depends on fractions.
\<close>

datatype jv =
    JUndef
  | JNull
  | JBool bool
  | JNum int
  | JStr string
  | JArr "jv list"
  | JObj "(string \<times> jv) list"

type_synonym AnyMap = "(string \<times> jv) list"

text \<open>JavaScript truthiness, as used by \<^verbatim>\<open>if (x)\<close>, \<^verbatim>\<open>!x\<close>, \<^verbatim>\<open>a && b\<close> and \<^verbatim>\<open>a || b\<close>.\<close>

fun truthy :: "jv \<Rightarrow> bool" where
  "truthy JUndef = False"
| "truthy JNull = False"
| "truthy (JBool b) = b"
| "truthy (JNum n) = (n \<noteq> 0)"
| "truthy (JStr s) = (s \<noteq> [])"
| "truthy (JArr xs) = True"
| "truthy (JObj kvs) = True"

text \<open>\<^verbatim>\<open>obj.hasOwnProperty(k)\<close>, \<^verbatim>\<open>obj[k]\<close> (\<^verbatim>\<open>undefined\<close> when missing), \<^verbatim>\<open>obj[k] = v\<close>
  and \<^verbatim>\<open>delete obj[k]\<close> on a plain object.\<close>

definition hasOwnProperty :: "AnyMap \<Rightarrow> string \<Rightarrow> bool" where
  "hasOwnProperty m k = (map_of m k \<noteq> None)"

definition get_prop :: "AnyMap \<Rightarrow> string \<Rightarrow> jv" where
  "get_prop m k = (case map_of m k of None \<Rightarrow> JUndef | Some v \<Rightarrow> v)"

definition assign :: "AnyMap \<Rightarrow> string \<Rightarrow> jv \<Rightarrow> AnyMap" where
  "assign m k v = AList.update k v m"

definition delete_prop :: "AnyMap \<Rightarrow> string \<Rightarrow> AnyMap" where
  "delete_prop m k = AList.delete k m"

text \<open>Property read on an arbitrary value: only objects carry own properties.\<close>

fun read_member :: "jv \<Rightarrow> string \<Rightarrow> jv" where
  "read_member (JObj kvs) k = get_prop kvs k"
| "read_member v k = JUndef"

section \<open>ScopeBuilder\<close>

datatype direction = ASC | DESC

datatype cache_directive = CacheFlag bool | CacheTTL int

datatype IncludeOption = IncludeOption
  (relation: string)
  (as_alias: "string option")
  (required: "bool option")
  (inc_attributes: "string list option")
  (through: jv)
  (inc_include: "IncludeOption list option")
  (inc_limit: "int option")
  (inc_offset: "int option")
  (inc_order: "(string \<times> direction) list option")

text \<open>An element of a scope's \<^verbatim>\<open>include\<close> list before normalisation: a relation name or an
  option object.\<close>

datatype include_in = IncludeName string | IncludeObject IncludeOption

text \<open>\<^verbatim>\<open>ScopeOptions\<close>: every member is optional. The where-predicate is an arbitrary
  value (\<^verbatim>\<open>JUndef\<close> when absent); the other members are \<open>None\<close> when \<^verbatim>\<open>undefined\<close>.
  The type parameter is the element type of \<^verbatim>\<open>include\<close>: \<open>include_in\<close> in a scope
  definition, \<open>IncludeOption\<close> in merged options.\<close>

record 'i ScopeOptions =
  so_where :: jv
  so_include :: "'i list option"
  so_cache :: "cache_directive option"
  so_order :: "(string \<times> direction) list option"
  so_limit :: "int option"
  so_offset :: "int option"
  so_attributes :: "string list option"

definition empty_options :: "'i ScopeOptions" where
  "empty_options = \<lparr> so_where = JUndef, so_include = None, so_cache = None, so_order = None,
     so_limit = None, so_offset = None, so_attributes = None \<rparr>"

text \<open>A scope definition is an options object or a function of the positional arguments.
  The function also receives the in-flight request, which it may mutate directly; when it
  returns the request itself its option contribution is empty.\<close>

datatype scope_result = ReturnsOptions "include_in ScopeOptions" | ReturnsRequest

datatype ScopeDefinition =
    ScopeObject "include_in ScopeOptions"
  | ScopeFunction "jv list \<Rightarrow> scope_result"

datatype ScopeRequest = ScopeName string | ScopeArgs "(string \<times> jv list) list"

datatype error = Error string

record ScopeBuilder =
  sb_model_name :: string
  sb_scopes :: "(string \<times> ScopeDefinition) list"
  sb_defaultScope :: "ScopeDefinition option"

definition extractOptionsFromRequest :: "include_in ScopeOptions" where
  "extractOptionsFromRequest = empty_options"

fun normalizeScopeDefinition :: "ScopeDefinition \<Rightarrow> jv list \<Rightarrow> include_in ScopeOptions" where
  "normalizeScopeDefinition (ScopeFunction f) args =
     (case f args of
        ReturnsRequest \<Rightarrow> extractOptionsFromRequest
      | ReturnsOptions result \<Rightarrow> result)"
| "normalizeScopeDefinition (ScopeObject definition) args = definition"

fun normalizeInclude :: "include_in \<Rightarrow> IncludeOption" where
  "normalizeInclude (IncludeName s) =
     IncludeOption s None None None JUndef None None None None"
| "normalizeInclude (IncludeObject i) = i"

text \<open>\<^verbatim>\<open>base.and && Array.isArray(base.and)\<close>: the elements of the top-level 'and' list,
  if the value has one.\<close>

definition and_list :: "jv \<Rightarrow> jv list option" where
  "and_list base = (case read_member base ''and'' of JArr xs \<Rightarrow> Some xs | _ \<Rightarrow> None)"

definition mergeWhere :: "jv \<Rightarrow> jv \<Rightarrow> jv" where
  "mergeWhere base incoming =
     (if \<not> truthy base then incoming
      else if \<not> truthy incoming then base
      else (case and_list base of
              Some xs \<Rightarrow> JObj [(''and'', JArr (xs @ [incoming]))]
            | None \<Rightarrow> JObj [(''and'', JArr [base, incoming])]))"

text \<open>The de-duplication key \<^verbatim>\<open>`${i.relation}:${i.as || ''}`\<close>.\<close>

definition include_key :: "IncludeOption \<Rightarrow> string" where
  "include_key i = relation i @ '':'' @ (case as_alias i of None \<Rightarrow> [] | Some a \<Rightarrow> a)"

text \<open>In-place update of the first element found by \<^verbatim>\<open>result.find\<close>.\<close>

fun update_first :: "('a \<Rightarrow> bool) \<Rightarrow> 'a \<Rightarrow> 'a list \<Rightarrow> 'a list" where
  "update_first P y [] = []"
| "update_first P y (x # xs) = (if P x then y # xs else x # update_first P y xs)"

definition set_include :: "IncludeOption \<Rightarrow> IncludeOption list \<Rightarrow> IncludeOption" where
  "set_include e l =
     IncludeOption (relation e) (as_alias e) (required e) (inc_attributes e) (through e)
       (Some l) (inc_limit e) (inc_offset e) (inc_order e)"

definition include_or_empty :: "IncludeOption \<Rightarrow> IncludeOption list" where
  "include_or_empty e = (case inc_include e of None \<Rightarrow> [] | Some l \<Rightarrow> l)"

text \<open>\<^verbatim>\<open>mergeIncludes\<close>: the loop over \<^verbatim>\<open>incoming\<close> carries \<^verbatim>\<open>result\<close> and the key set.
  The source assigns \<^verbatim>\<open>existing.include\<close> on the object shared with \<^verbatim>\<open>base\<close>; the model
  returns the list holding the updated element.\<close>

function mergeIncludes :: "IncludeOption list \<Rightarrow> IncludeOption list \<Rightarrow> IncludeOption list"
  and mergeIncludes_loop ::
    "IncludeOption list \<Rightarrow> string list \<Rightarrow> IncludeOption list \<Rightarrow> IncludeOption list"
where
  "mergeIncludes base incoming = mergeIncludes_loop base (map include_key base) incoming"
| "mergeIncludes_loop result keys [] = result"
| "mergeIncludes_loop result keys (inc # rest) =
     (if include_key inc \<notin> set keys
      then mergeIncludes_loop (result @ [inc]) (keys @ [include_key inc]) rest
      else (case find (\<lambda>r. include_key r = include_key inc) result of
              None \<Rightarrow> mergeIncludes_loop result keys rest
            | Some existing \<Rightarrow>
                (case inc_include inc of
                   None \<Rightarrow> mergeIncludes_loop result keys rest
                 | Some [] \<Rightarrow> mergeIncludes_loop result keys rest
                 | Some (n # ns) \<Rightarrow>
                     mergeIncludes_loop
                       (update_first (\<lambda>r. include_key r = include_key inc)
                          (set_include existing
                             (mergeIncludes (include_or_empty existing) (n # ns)))
                          result)
                       keys rest)))"
  by pat_completeness auto
termination
  apply (relation "measure (\<lambda>x. case x of
          Inl (base, incoming) \<Rightarrow> 2 * size_list size incoming + 1
        | Inr (result, keys, incoming) \<Rightarrow> 2 * size_list size incoming)")
  apply simp_all
  subgoal for result keys inc rest existing n ns
    by (cases inc) simp
  done

definition mergeOptions ::
  "IncludeOption ScopeOptions \<Rightarrow> include_in ScopeOptions \<Rightarrow> IncludeOption ScopeOptions" where
  "mergeOptions base incoming =
     (let merged = base;
          merged = (if truthy (so_where incoming)
                    then merged\<lparr> so_where := mergeWhere (so_where base) (so_where incoming) \<rparr>
                    else merged);
          merged = (case so_include incoming of
                      Some inc \<Rightarrow>
                        merged\<lparr> so_include :=
                          Some (mergeIncludes
                                  (case so_include base of None \<Rightarrow> [] | Some b \<Rightarrow> b)
                                  (map normalizeInclude inc)) \<rparr>
                    | None \<Rightarrow> merged);
          merged = (case so_cache incoming of Some c \<Rightarrow> merged\<lparr> so_cache := Some c \<rparr>
                    | None \<Rightarrow> merged);
          merged = (case so_order incoming of Some c \<Rightarrow> merged\<lparr> so_order := Some c \<rparr>
                    | None \<Rightarrow> merged);
          merged = (case so_limit incoming of Some c \<Rightarrow> merged\<lparr> so_limit := Some c \<rparr>
                    | None \<Rightarrow> merged);
          merged = (case so_offset incoming of Some c \<Rightarrow> merged\<lparr> so_offset := Some c \<rparr>
                    | None \<Rightarrow> merged);
          merged = (case so_attributes incoming of
                      Some c \<Rightarrow> merged\<lparr> so_attributes := Some c \<rparr>
                    | None \<Rightarrow> merged)
      in merged)"

text \<open>The name and arguments of one scope request. For the object form the name is
  \<^verbatim>\<open>Object.keys(scopeReq)[0]\<close>; on an empty object that is \<^verbatim>\<open>undefined\<close>, which the
  lookup and the message render as the string 'undefined'.\<close>

fun scope_name :: "ScopeRequest \<Rightarrow> string" where
  "scope_name (ScopeName s) = s"
| "scope_name (ScopeArgs []) = ''undefined''"
| "scope_name (ScopeArgs ((k, a) # kvs)) = k"

fun scope_args :: "ScopeRequest \<Rightarrow> jv list" where
  "scope_args (ScopeName s) = []"
| "scope_args (ScopeArgs []) = []"
| "scope_args (ScopeArgs ((k, a) # kvs)) = a"

definition scope_not_defined :: "string \<Rightarrow> string \<Rightarrow> string" where
  "scope_not_defined scopeName modelName =
     ''Scope '' @ [CHR 0x27] @ scopeName @ [CHR 0x27] @ '' not defined on model ''
       @ [CHR 0x27] @ modelName @ [CHR 0x27]"

fun applyScopes_loop ::
  "ScopeBuilder \<Rightarrow> IncludeOption ScopeOptions \<Rightarrow> ScopeRequest list
     \<Rightarrow> error + IncludeOption ScopeOptions" where
  "applyScopes_loop sb merged [] = Inr merged"
| "applyScopes_loop sb merged (scopeReq # rest) =
     (case map_of (sb_scopes sb) (scope_name scopeReq) of
        None \<Rightarrow> Inl (Error (scope_not_defined (scope_name scopeReq) (sb_model_name sb)))
      | Some scopeDef \<Rightarrow>
          applyScopes_loop sb
            (mergeOptions merged (normalizeScopeDefinition scopeDef (scope_args scopeReq)))
            rest)"

definition applyScopes ::
  "ScopeBuilder \<Rightarrow> ScopeRequest list \<Rightarrow> bool \<Rightarrow> error + IncludeOption ScopeOptions" where
  "applyScopes sb scopeRequests includeDefault =
     (let merged = empty_options;
          merged = (case sb_defaultScope sb of
                      Some d \<Rightarrow>
                        if includeDefault
                        then mergeOptions merged (normalizeScopeDefinition d [])
                        else merged
                    | None \<Rightarrow> merged)
      in applyScopes_loop sb merged scopeRequests)"

definition hasScope :: "ScopeBuilder \<Rightarrow> string \<Rightarrow> bool" where
  "hasScope sb name = (map_of (sb_scopes sb) name \<noteq> None)"

definition getScopeNames :: "ScopeBuilder \<Rightarrow> string list" where
  "getScopeNames sb = map fst (sb_scopes sb)"

text \<open>The accumulator \<^verbatim>\<open>applyScopes\<close> starts its loop from, and the options one request
  contributes once its name has been resolved.\<close>

definition start_options :: "ScopeBuilder \<Rightarrow> bool \<Rightarrow> IncludeOption ScopeOptions" where
  "start_options sb includeDefault =
     (case sb_defaultScope sb of
        Some d \<Rightarrow> if includeDefault then mergeOptions empty_options (normalizeScopeDefinition d [])
                  else empty_options
      | None \<Rightarrow> empty_options)"

definition resolved_options :: "ScopeBuilder \<Rightarrow> ScopeRequest \<Rightarrow> include_in ScopeOptions" where
  "resolved_options sb r =
     (case map_of (sb_scopes sb) (scope_name r) of
        Some d \<Rightarrow> normalizeScopeDefinition d (scope_args r)
      | None \<Rightarrow> empty_options)"

subsection \<open>Example scopes\<close>

definition where_active :: jv where
  "where_active = JObj [(''active'', JBool True)]"

definition where_featured :: jv where
  "where_featured = JObj [(''featured'', JBool True)]"

definition where_recent :: jv where
  "where_recent = JObj [(''recent'', JBool True)]"

definition scope_A :: "include_in ScopeOptions" where
  "scope_A = empty_options\<lparr> so_where := where_featured, so_cache := Some (CacheTTL 60),
     so_order := Some [(''x'', ASC)], so_limit := Some 10, so_offset := Some 5,
     so_attributes := Some [''id''] \<rparr>"

definition scope_B :: "include_in ScopeOptions" where
  "scope_B = empty_options\<lparr> so_where := where_recent, so_cache := Some (CacheFlag True),
     so_order := Some [(''y'', DESC)], so_limit := Some 3, so_offset := Some 0,
     so_attributes := Some [''id'', ''title''] \<rparr>"

definition example_builder :: ScopeBuilder where
  "example_builder = \<lparr> sb_model_name = ''TestModel'',
     sb_scopes = [(''A'', ScopeObject scope_A), (''B'', ScopeObject scope_B)],
     sb_defaultScope = Some (ScopeObject (empty_options\<lparr> so_where := where_active \<rparr>)) \<rparr>"

section \<open>Cache adapters\<close>

text \<open>The in-memory adapter keeps a map from key to value and expiry time (milliseconds),
  and a tag index. \<^verbatim>\<open>Date.now()\<close> is the explicit argument \<open>now\<close>; every operation returns
  the adapter it leaves behind.\<close>

record cache_entry =
  ce_value :: jv
  ce_expires :: int

record InMemoryCacheAdapter =
  ca_cache :: "(string \<times> cache_entry) list"
  ca_tags :: "(string \<times> string list) list"

definition InMemoryCacheAdapter_new :: InMemoryCacheAdapter where
  "InMemoryCacheAdapter_new = \<lparr> ca_cache = [], ca_tags = [] \<rparr>"

definition InMemoryCacheAdapter_get ::
  "int \<Rightarrow> InMemoryCacheAdapter \<Rightarrow> string \<Rightarrow> int option \<Rightarrow> jv \<times> InMemoryCacheAdapter" where
  "InMemoryCacheAdapter_get now c key evictTimestamp =
     (case map_of (ca_cache c) key of
        None \<Rightarrow> (JNull, c)
      | Some entry \<Rightarrow>
          if ce_expires entry < now
          then (JNull, c\<lparr> ca_cache := AList.delete key (ca_cache c) \<rparr>)
          else if (case evictTimestamp of
                     Some t \<Rightarrow> t \<noteq> 0 \<and> ce_expires entry \<le> t
                   | None \<Rightarrow> False)
          then (JNull, c\<lparr> ca_cache := AList.delete key (ca_cache c) \<rparr>)
          else (ce_value entry, c))"

definition InMemoryCacheAdapter_set ::
  "int \<Rightarrow> InMemoryCacheAdapter \<Rightarrow> string \<Rightarrow> jv \<Rightarrow> int \<Rightarrow> bool \<times> InMemoryCacheAdapter" where
  "InMemoryCacheAdapter_set now c key v ttl =
     (let expires = now + ttl * 1000
      in (True, c\<lparr> ca_cache :=
                      AList.update key \<lparr> ce_value = v, ce_expires = expires \<rparr> (ca_cache c) \<rparr>))"

definition InMemoryCacheAdapter_del :: "InMemoryCacheAdapter \<Rightarrow> string \<Rightarrow> InMemoryCacheAdapter" where
  "InMemoryCacheAdapter_del c key =
     c\<lparr> ca_cache := AList.delete key (ca_cache c),
        ca_tags := map (\<lambda>(tag, keys). (tag, removeAll key keys)) (ca_tags c) \<rparr>"

fun InMemoryCacheAdapter_tagInvalidate ::
  "InMemoryCacheAdapter \<Rightarrow> string list \<Rightarrow> InMemoryCacheAdapter" where
  "InMemoryCacheAdapter_tagInvalidate c [] = c"
| "InMemoryCacheAdapter_tagInvalidate c (tag # tags) =
     InMemoryCacheAdapter_tagInvalidate
       (case map_of (ca_tags c) tag of
          None \<Rightarrow> c
        | Some keys \<Rightarrow>
            c\<lparr> ca_cache := filter (\<lambda>(k, e). k \<notin> set keys) (ca_cache c),
               ca_tags := AList.delete tag (ca_tags c) \<rparr>)
       tags"

definition InMemoryCacheAdapter_clear :: "InMemoryCacheAdapter \<Rightarrow> InMemoryCacheAdapter" where
  "InMemoryCacheAdapter_clear c = \<lparr> ca_cache = [], ca_tags = [] \<rparr>"

definition add_to_set :: "'a \<Rightarrow> 'a list \<Rightarrow> 'a list" where
  "add_to_set x xs = (if x \<in> set xs then xs else xs @ [x])"

fun InMemoryCacheAdapter_tagKey ::
  "InMemoryCacheAdapter \<Rightarrow> string \<Rightarrow> string list \<Rightarrow> InMemoryCacheAdapter" where
  "InMemoryCacheAdapter_tagKey c key [] = c"
| "InMemoryCacheAdapter_tagKey c key (tag # tags) =
     InMemoryCacheAdapter_tagKey
       (c\<lparr> ca_tags :=
             AList.update tag
               (add_to_set key (case map_of (ca_tags c) tag of None \<Rightarrow> [] | Some ks \<Rightarrow> ks))
               (ca_tags c) \<rparr>)
       key tags"

text \<open>The no-op adapter: never a hit, \<^verbatim>\<open>set\<close> reports failure.\<close>

definition NoOpCacheAdapter_get :: "string \<Rightarrow> int option \<Rightarrow> jv" where
  "NoOpCacheAdapter_get key evictTimestamp = JNull"

definition NoOpCacheAdapter_set :: "string \<Rightarrow> jv \<Rightarrow> int \<Rightarrow> bool" where
  "NoOpCacheAdapter_set key v ttl = False"

section \<open>Request\<close>

text \<open>The external query builder, as far as the Request reads it (\<^verbatim>\<open>_method\<close>,
  \<^verbatim>\<open>_statements\<close>, \<^verbatim>\<open>_cacheTTL\<close>, \<^verbatim>\<open>_includeRelations\<close>) and the calls the Request makes
  on it, logged oldest first. The optional builder methods are taken to be present.\<close>

datatype qb_call =
    CallWhere jv
  | CallOrderBy string direction
  | CallLimit int
  | CallOffset int
  | CallSelect "string list"
  | CallDistinct
  | CallThen

record QueryStatement =
  grouping :: string
  st_value :: jv

record QueryBuilder =
  qb_method :: "string option"
  qb_statements :: "QueryStatement list"
  qb_cacheTTL :: "int option"
  qb_includeRelations :: "string list option"
  qb_calls :: "qb_call list"

text \<open>What a Request reads from its Model. \<open>rm_cache\<close> stands for the \<^verbatim>\<open>cache\<close> getter
  returning a cache rather than \<^verbatim>\<open>null\<close>.\<close>

record RequestModel =
  rm_name :: string
  rm_table :: string
  rm_columns :: "string list"
  rm_primaryColumn :: "string option"
  rm_cache :: bool
  rm_cacheInvalidateMs :: int
  rm_scopeBuilder :: "ScopeBuilder option"

record Request =
  rq_model :: RequestModel
  rq_queryBuilder :: QueryBuilder
  rq_scopeRequests :: "ScopeRequest list option"
  rq_applyDefaultScope :: "bool option"
  rq_scopesApplied :: bool

text \<open>The collaborators around a Request: the shared cache, the clock, what storage
  answers to the n-th execution of the query, the hydration of a result into records and
  \<^verbatim>\<open>JSON.stringify\<close> of the statements. Two counters record how often the scope builder was
  asked to resolve scopes and how often the builder's \<^verbatim>\<open>then\<close> was invoked.\<close>

record io =
  io_cache :: InMemoryCacheAdapter
  io_now :: int
  io_results :: "nat \<Rightarrow> error + jv"
  io_wrap :: "jv \<Rightarrow> jv"
  io_stringify :: "QueryStatement list \<Rightarrow> string"
  io_scope_resolutions :: nat
  io_executions :: nat


definition qb_call :: "qb_call \<Rightarrow> Request \<Rightarrow> Request" where
  "qb_call c r = r\<lparr> rq_queryBuilder :=
     (rq_queryBuilder r)\<lparr> qb_calls := qb_calls (rq_queryBuilder r) @ [c] \<rparr> \<rparr>"

definition Request_cache :: "int \<Rightarrow> Request \<Rightarrow> Request" where
  "Request_cache ttl r = r\<lparr> rq_queryBuilder := (rq_queryBuilder r)\<lparr> qb_cacheTTL := Some ttl \<rparr> \<rparr>"

definition Request_include :: "string list \<Rightarrow> Request \<Rightarrow> Request" where
  "Request_include relations r =
     r\<lparr> rq_queryBuilder := (rq_queryBuilder r)\<lparr> qb_includeRelations :=
          Some (foldl (\<lambda>s rel. add_to_set rel s)
                  (case qb_includeRelations (rq_queryBuilder r) of None \<Rightarrow> [] | Some s \<Rightarrow> s)
                  relations) \<rparr> \<rparr>"

definition Request_unscoped :: "Request \<Rightarrow> Request" where
  "Request_unscoped r = r\<lparr> rq_applyDefaultScope := Some False \<rparr>"

text \<open>\<^verbatim>\<open>_applyScopes\<close> after its guard: the flag is already set when the scope builder is
  asked, so an error from \<^verbatim>\<open>applyScopes\<close> leaves it set.\<close>

definition push_scope_options :: "IncludeOption ScopeOptions \<Rightarrow> Request \<Rightarrow> Request" where
  "push_scope_options scopeOptions r =
     (let r = (if truthy (so_where scopeOptions) then qb_call (CallWhere (so_where scopeOptions)) r
               else r);
          r = (case so_include scopeOptions of
                 Some incs \<Rightarrow> foldl (\<lambda>q inc. Request_include [relation inc] q) r incs
               | None \<Rightarrow> r);
          r = (case so_cache scopeOptions of
                 Some (CacheTTL n) \<Rightarrow> Request_cache n r
               | Some (CacheFlag True) \<Rightarrow> Request_cache 300 r
               | _ \<Rightarrow> r);
          r = (case so_order scopeOptions of
                 Some ords \<Rightarrow> foldl (\<lambda>q (field, dir). qb_call (CallOrderBy field dir) q) r ords
               | None \<Rightarrow> r);
          r = (case so_limit scopeOptions of Some n \<Rightarrow> qb_call (CallLimit n) r | None \<Rightarrow> r);
          r = (case so_offset scopeOptions of Some n \<Rightarrow> qb_call (CallOffset n) r | None \<Rightarrow> r)
      in r)"

definition applyScopes_of_request :: "Request \<Rightarrow> io \<Rightarrow> error option \<times> Request \<times> io" where
  "applyScopes_of_request r w =
     (if rq_scopesApplied r then (None, r, w)
      else
        (let r = r\<lparr> rq_scopesApplied := True \<rparr>
         in case rm_scopeBuilder (rq_model r) of
              None \<Rightarrow> (None, r, w)
            | Some scopeBuilder \<Rightarrow>
                (let includeDefault = (rq_applyDefaultScope r \<noteq> Some False);
                     scopeRequests = (case rq_scopeRequests r of None \<Rightarrow> [] | Some l \<Rightarrow> l);
                     w = w\<lparr> io_scope_resolutions := io_scope_resolutions w + 1 \<rparr>
                 in case applyScopes scopeBuilder scopeRequests includeDefault of
                      Inl e \<Rightarrow> (Some e, r, w)
                    | Inr scopeOptions \<Rightarrow> (None, push_scope_options scopeOptions r, w))))"




definition is_nonempty_array :: "jv \<Rightarrow> bool" where
  "is_nonempty_array v = (case v of JArr (x # xs) \<Rightarrow> True | _ \<Rightarrow> False)"

definition ensureDefaultIdSelect :: "Request \<Rightarrow> Request" where
  "ensureDefaultIdSelect r =
     (let qb = rq_queryBuilder r;
          readLike = (case qb_method qb of
                        None \<Rightarrow> True
                      | Some method \<Rightarrow> method = [] \<or> method = ''select'' \<or> method = ''first'')
      in if \<not> readLike then r
         else
           (let stmts = qb_statements qb;
                hasColumns = list_ex (\<lambda>s. grouping s = ''columns'' \<and> is_nonempty_array (st_value s))
                               stmts
            in if hasColumns then r
               else
                 (let hasJoins = list_ex (\<lambda>s. grouping s = ''join'') stmts;
                      m = rq_model r
                  in if rm_cache m
                     then (let id = (case rm_primaryColumn m of
                                       None \<Rightarrow> ''id''
                                     | Some c \<Rightarrow> if c = [] then ''id'' else c);
                               r = qb_call (CallSelect [rm_table m @ ''.'' @ id]) r
                           in if hasJoins then qb_call CallDistinct r else r)
                     else if hasJoins
                     then qb_call (CallSelect (map (\<lambda>col. rm_table m @ ''.'' @ col) (rm_columns m)))
                            (qb_call CallDistinct r)
                     else qb_call (CallSelect (rm_columns m)) r)))"





subsection \<open>Example request\<close>




section \<open>Record\<close>

text \<open>A field of a Model, as a Record uses it (\<^verbatim>\<open>AnyField\<close>). The Field classes themselves
  are not part of the sources at hand, so their behaviour is a parameter: each function
  receives the record's \<^verbatim>\<open>_data\<close> and \<^verbatim>\<open>_changes\<close>; \<^verbatim>\<open>validate\<close> and the hooks either pass
  (\<open>None\<close>) or throw. \<open>fd_stored\<close> is false exactly when \<^verbatim>\<open>field.stored === false\<close>;
  \<open>fd_isDiscriminator\<close> is the mark Model initialisation puts on the parent's reference
  field.\<close>

record Field =
  fd_name :: string
  fd_column :: string
  fd_stored :: bool
  fd_isDiscriminator :: bool
  fd_deserialize :: "jv \<Rightarrow> jv"
  fd_serialize :: "AnyMap \<Rightarrow> AnyMap \<Rightarrow> jv"
  fd_toJSON :: "AnyMap \<Rightarrow> AnyMap \<Rightarrow> jv"
  fd_validate :: "AnyMap \<Rightarrow> AnyMap \<Rightarrow> error option"
  fd_pre_update :: "AnyMap \<Rightarrow> AnyMap \<Rightarrow> error option"
  fd_post_update :: "AnyMap \<Rightarrow> AnyMap \<Rightarrow> error option"
  fd_pre_create :: "AnyMap \<Rightarrow> AnyMap \<Rightarrow> error option"
  fd_post_create :: "AnyMap \<Rightarrow> AnyMap \<Rightarrow> error option"

text \<open>What a Record reads from its Model: the name, \<^verbatim>\<open>Object.values(fields)\<close> in order (the
  field map is keyed by field name), the primary field's column, whether the \<^verbatim>\<open>cache\<close>
  getter yields a cache, the TTL and the invalidation flag.\<close>

record ModelInfo =
  md_name :: string
  md_fields :: "Field list"
  md_primaryColumn :: string
  md_cache :: bool
  md_cacheTTL :: "int option"
  md_cacheInvalidation :: bool

datatype readiness = Ready | NotReady | Hydrating

record RecordState =
  rec_model :: ModelInfo
  rec_changes :: AnyMap
  rec_data :: AnyMap
  rec_isReady :: readiness
  rec_flushed :: bool
  rec_isDirty :: bool

text \<open>A Record owns its parent Record (the inheritance chain).\<close>

datatype Record = Record (st: RecordState) (rec_parent: "Record option")

text \<open>Everything a Record does to the outside, in the order it happens: storage writes
  (attempted, whether or not they succeed), cache writes, events and cache invalidation.
  What storage answers to a write is a parameter that may depend on what happened before:
  an update succeeds or is rejected, an insert returns what \<^verbatim>\<open>returning('id')\<close> yields or is
  rejected, and \<open>last_row_id\<close> is the id of the last row of a table (\<^verbatim>\<open>undefined\<close> when
  there is none). \<open>transactional\<close> tells whether the repository runs inside a transaction.\<close>

datatype effect =
    StorageUpdate string jv AnyMap
  | StorageInsert string AnyMap
  | CacheSet string jv AnyMap "int option"
  | Emit string string
  | InvalidateCache string

record world =
  effects :: "effect list"
  update_outcome :: "effect list \<Rightarrow> string \<Rightarrow> jv \<Rightarrow> AnyMap \<Rightarrow> error option"
  insert_outcome :: "effect list \<Rightarrow> string \<Rightarrow> AnyMap \<Rightarrow> error + jv"
  last_row_id :: "effect list \<Rightarrow> string \<Rightarrow> jv"
  transactional :: bool

definition log_effect :: "effect \<Rightarrow> world \<Rightarrow> world" where
  "log_effect e w = w\<lparr> effects := effects w @ [e] \<rparr>"

fun is_storage_write :: "effect \<Rightarrow> bool" where
  "is_storage_write (StorageUpdate t i u) = True"
| "is_storage_write (StorageInsert t u) = True"
| "is_storage_write e = False"

definition storage_writes :: "world \<Rightarrow> nat" where
  "storage_writes w = length (filter is_storage_write (effects w))"

subsection \<open>sync\<close>

text \<open>One iteration of the loop over the Model's fields in \<^verbatim>\<open>sync\<close>.\<close>

definition sync_field :: "AnyMap \<Rightarrow> RecordState \<Rightarrow> Field \<Rightarrow> RecordState" where
  "sync_field d s field =
     (if \<not> hasOwnProperty d (fd_name field) \<and> \<not> hasOwnProperty d (fd_column field) then s
      else
        (let key = (if hasOwnProperty d (fd_name field) then fd_name field else fd_column field)
         in if fd_column field = md_primaryColumn (rec_model s)
               \<and> truthy (get_prop (rec_data s) (fd_column field))
            then s
            else s\<lparr> rec_data :=
                      assign (rec_data s) (fd_column field) (fd_deserialize field (get_prop d key)),
                    rec_changes := delete_prop (rec_changes s) (fd_column field) \<rparr>))"

definition sync_own :: "AnyMap \<Rightarrow> RecordState \<Rightarrow> RecordState" where
  "sync_own d s =
     (let s = foldl (sync_field d) s (md_fields (rec_model s))
      in s\<lparr> rec_isReady := Ready, rec_isDirty := (rec_changes s \<noteq> []) \<rparr>)"

fun sync :: "Record \<Rightarrow> AnyMap \<Rightarrow> Record" where
  "sync (Record s None) d = Record (sync_own d s) None"
| "sync (Record s (Some p)) d = Record (sync_own d s) (Some (sync p d))"

text \<open>The constructor.\<close>

definition Record_new :: "ModelInfo \<Rightarrow> AnyMap \<Rightarrow> Record option \<Rightarrow> Record" where
  "Record_new m d p =
     (case sync (Record \<lparr> rec_model = m, rec_changes = [], rec_data = [], rec_isReady = NotReady,
                          rec_flushed = False, rec_isDirty = False \<rparr> p) d of
        Record s p' \<Rightarrow>
          Record (s\<lparr> rec_isReady := (if length d > 1 then Ready else NotReady),
                     rec_flushed := False, rec_isDirty := False \<rparr>) p')"

subsection \<open>Field accessors\<close>

text \<open>Modelled from the spec: the getter and setter pair that Model initialisation attaches
  to the record prototype for each field of the Model (the Field classes are missing from
  the sources). The pair is "wired to dirty-tracking": the setter records the value as a
  pending change of the field's column and marks the record dirty; the getter reads the
  pending change when there is one and the value in \<^verbatim>\<open>_data\<close> otherwise. For a field of the
  parent Model that the child does not declare, the accessors delegate to \<^verbatim>\<open>_parent\<close>, as
  the initialisation code in the sources defines them.\<close>

definition own_field :: "RecordState \<Rightarrow> string \<Rightarrow> Field option" where
  "own_field s name = find (\<lambda>f. fd_name f = name) (md_fields (rec_model s))"

definition field_get :: "RecordState \<Rightarrow> Field \<Rightarrow> jv" where
  "field_get s f =
     (if hasOwnProperty (rec_changes s) (fd_column f) then get_prop (rec_changes s) (fd_column f)
      else get_prop (rec_data s) (fd_column f))"

definition field_set :: "RecordState \<Rightarrow> Field \<Rightarrow> jv \<Rightarrow> RecordState" where
  "field_set s f v = s\<lparr> rec_changes := assign (rec_changes s) (fd_column f) v, rec_isDirty := True \<rparr>"

fun read_property :: "Record \<Rightarrow> string \<Rightarrow> jv" where
  "read_property (Record s p) name =
     (case own_field s name of
        Some f \<Rightarrow> field_get s f
      | None \<Rightarrow>
          (case p of
             None \<Rightarrow> JUndef
           | Some (Record ps pp) \<Rightarrow>
               (case own_field ps name of Some f \<Rightarrow> field_get ps f | None \<Rightarrow> JUndef)))"

definition toRawJSON :: "RecordState \<Rightarrow> AnyMap" where
  "toRawJSON s =
     foldl (\<lambda>json f. (let v = fd_toJSON f (rec_data s) (rec_changes s)
                       in if v \<noteq> JUndef then assign json (fd_name f) v else json))
       [] (md_fields (rec_model s))"

subsection \<open>flush\<close>

text \<open>The first rejection among the hooks run side by side under \<^verbatim>\<open>Promise.all\<close>.\<close>

fun first_error :: "error option list \<Rightarrow> error option" where
  "first_error [] = None"
| "first_error (None # es) = first_error es"
| "first_error (Some e # es) = Some e"

text \<open>The loop that validates every stored field and collects the update payload.\<close>

fun build_update :: "Field list \<Rightarrow> RecordState \<Rightarrow> AnyMap \<Rightarrow> error + AnyMap" where
  "build_update [] s upd = Inr upd"
| "build_update (field # rest) s upd =
     (if \<not> fd_stored field then build_update rest s upd
      else (case fd_validate field (rec_data s) (rec_changes s) of
              Some e \<Rightarrow> Inl e
            | None \<Rightarrow>
                build_update rest s
                  (if hasOwnProperty (rec_changes s) (fd_column field)
                   then assign upd (fd_column field)
                          (fd_serialize field (rec_data s) (rec_changes s))
                   else upd)))"

text \<open>The post-update hooks: \<^verbatim>\<open>fields[key].post_update(this)\<close> for every key of the update
  payload. The payload is keyed by column and the field map by name, so a column that is
  not also a field name makes the lookup \<^verbatim>\<open>undefined\<close> and the call throws a TypeError.\<close>

definition post_update_hooks :: "RecordState \<Rightarrow> AnyMap \<Rightarrow> error option" where
  "post_update_hooks s upd =
     first_error
       (map (\<lambda>(key, v). case own_field s key of
                          None \<Rightarrow> Some (Error ''TypeError: Cannot read properties of undefined'')
                        | Some f \<Rightarrow> fd_post_update f (rec_data s) (rec_changes s))
          upd)"

text \<open>The body of \<^verbatim>\<open>flush\<close> after the parent has been flushed. \<open>r\<close> is the whole record, for
  \<^verbatim>\<open>this.id\<close>. The record's own \<^verbatim>\<open>pre_update\<close>, \<^verbatim>\<open>pre_validate\<close> and \<^verbatim>\<open>post_update\<close> hooks are
  the no-ops the class defines.\<close>

definition flush_own :: "Record \<Rightarrow> world \<Rightarrow> error option \<times> Record \<times> world" where
  "flush_own r w =
     (let s = st r; p = rec_parent r; m = rec_model s
      in if \<not> rec_isDirty s then (None, r, w)
         else
           (let s = s\<lparr> rec_isDirty := False \<rparr>
            in case first_error (map (\<lambda>f. fd_pre_update f (rec_data s) (rec_changes s))
                                   (md_fields m)) of
                 Some e \<Rightarrow> (Some e, Record s p, w)
               | None \<Rightarrow>
                   (case build_update (md_fields m) s [] of
                      Inl e \<Rightarrow> (Some e, Record s p, w)
                    | Inr upd \<Rightarrow>
                        (let id = read_property (Record s p) ''id'';
                             failed = (if upd \<noteq> [] then update_outcome w (effects w) (md_name m) id upd
                                       else None);
                             w = (if upd \<noteq> [] then log_effect (StorageUpdate (md_name m) id upd) w
                                  else w)
                         in case failed of
                              Some e \<Rightarrow> (Some e, Record s p, w)
                            | None \<Rightarrow>
                                (let s = s\<lparr> rec_isDirty := False,
                                            rec_data := foldl (\<lambda>d (k, v). assign d k v)
                                                          (rec_data s) (rec_changes s),
                                            rec_changes := [],
                                            rec_flushed := True \<rparr>;
                                     w = (if md_cache m
                                          then log_effect
                                                 (CacheSet (md_name m)
                                                    (read_property (Record s p) ''id'')
                                                    (toRawJSON s) (md_cacheTTL m)) w
                                          else w)
                                 in case post_update_hooks s upd of
                                      Some e \<Rightarrow> (Some e, Record s p, w)
                                    | None \<Rightarrow>
                                        (let w = log_effect (Emit (md_name m) ''update'') w;
                                             w = (if md_cacheInvalidation m
                                                  then log_effect (InvalidateCache (md_name m)) w
                                                  else w)
                                         in (None, Record s p, w)))))))"

fun flush :: "Record \<Rightarrow> world \<Rightarrow> error option \<times> Record \<times> world" where
  "flush (Record s None) w = flush_own (Record s None) w"
| "flush (Record s (Some p)) w =
     (case flush p w of
        (Some e, p', w') \<Rightarrow> (Some e, Record s (Some p'), w')
      | (None, p', w') \<Rightarrow> flush_own (Record s (Some p')) w')"

subsection \<open>write\<close>

text \<open>The loop over the keys of \<^verbatim>\<open>data\<close>: a key that names a field of the Model is assigned
  through the field's setter and deleted from \<^verbatim>\<open>data\<close>.\<close>

definition write_key :: "RecordState \<times> AnyMap \<Rightarrow> string \<Rightarrow> RecordState \<times> AnyMap" where
  "write_key sd key =
     (case own_field (fst sd) key of
        Some f \<Rightarrow> (field_set (fst sd) f (get_prop (snd sd) key), delete_prop (snd sd) key)
      | None \<Rightarrow> sd)"

definition join_keys :: "string list \<Rightarrow> string" where
  "join_keys ks = (case ks of [] \<Rightarrow> [] | k # rest \<Rightarrow> foldl (\<lambda>acc x. acc @ '', '' @ x) k rest)"

definition unknown_fields :: "string list \<Rightarrow> string \<Rightarrow> string" where
  "unknown_fields remainKeys modelName =
     ''Field '' @ join_keys remainKeys @ '' does not exist on model '' @ modelName"

text \<open>\<^verbatim>\<open>write(data)\<close>: \<open>None\<close> is a missing (falsy) argument. The result carries the data
  object as the call leaves it, since the caller's object is mutated.\<close>

fun Record_write_data :: "Record \<Rightarrow> AnyMap \<Rightarrow> world \<Rightarrow> error option \<times> Record \<times> AnyMap \<times> world"
  and Record_write :: "Record \<Rightarrow> AnyMap option \<Rightarrow> world \<Rightarrow> error option \<times> Record \<times> AnyMap option \<times> world"
where
  "Record_write_data (Record s p) d w =
     (case foldl write_key (s, d) (map fst d) of
        (s, d) \<Rightarrow>
          (case (case p of
                   Some q \<Rightarrow>
                     if d \<noteq> []
                     then (case Record_write q (Some d) w of
                             (e, q', d', w') \<Rightarrow> (e, Some q', case d' of Some x \<Rightarrow> x | None \<Rightarrow> d, w'))
                     else (None, Some q, d, w)
                 | None \<Rightarrow> (None, None, d, w)) of
             (Some e, p, d, w) \<Rightarrow> (Some e, Record s p, d, w)
           | (None, p, d, w) \<Rightarrow>
               if d \<noteq> []
               then (Some (Error (unknown_fields (map fst d) (md_name (rec_model s)))),
                     Record s p, d, w)
               else (None, Record s p, d, w)))"
| "Record_write r None w = (case flush r w of (e, r', w') \<Rightarrow> (e, r', None, w'))"
| "Record_write r (Some d) w =
     (case Record_write_data r d w of
        (Some e, r', d', w') \<Rightarrow> (Some e, r', Some d', w')
      | (None, r', d', w') \<Rightarrow> (case flush r' w' of (e, r'', w'') \<Rightarrow> (e, r'', Some d', w'')))"

subsection \<open>Predicates used by the properties\<close>

text \<open>The key under which \<^verbatim>\<open>sync\<close> reads a field's incoming value (the field's name when
  the data has it, its column otherwise), and whether the data has either.\<close>

definition incoming_key :: "AnyMap \<Rightarrow> Field \<Rightarrow> string" where
  "incoming_key d f = (if hasOwnProperty d (fd_name f) then fd_name f else fd_column f)"

definition appears_in :: "AnyMap \<Rightarrow> Field \<Rightarrow> bool" where
  "appears_in d f = (hasOwnProperty d (fd_name f) \<or> hasOwnProperty d (fd_column f))"

text \<open>The record's data holds a truthy value under the primary-key column.\<close>

definition primary_is_set :: "RecordState \<Rightarrow> bool" where
  "primary_is_set s = truthy (get_prop (rec_data s) (md_primaryColumn (rec_model s)))"

text \<open>Neither the record nor any record of its parent chain is dirty.\<close>

fun chain_clean :: "Record \<Rightarrow> bool" where
  "chain_clean (Record s None) = (\<not> rec_isDirty s)"
| "chain_clean (Record s (Some p)) = (\<not> rec_isDirty s \<and> chain_clean p)"

text \<open>Some stored field has a pending change, so that \<^verbatim>\<open>flush\<close> has something to send; and
  the number of records of the chain, the record included, that are dirty with such a
  change, which is the number of updates a \<^verbatim>\<open>flush\<close> sends when all succeed.\<close>

definition pending_stored :: "RecordState \<Rightarrow> bool" where
  "pending_stored s =
     list_ex (\<lambda>f. fd_stored f \<and> hasOwnProperty (rec_changes s) (fd_column f))
       (md_fields (rec_model s))"

fun chain_writes :: "Record \<Rightarrow> nat" where
  "chain_writes (Record s None) = (if rec_isDirty s \<and> pending_stored s then 1 else 0)"
| "chain_writes (Record s (Some p)) =
     chain_writes p + (if rec_isDirty s \<and> pending_stored s then 1 else 0)"

text \<open>No record of the parent chain is dirty (the record itself may be).\<close>

definition ancestors_clean :: "Record \<Rightarrow> bool" where
  "ancestors_clean r = (case rec_parent r of None \<Rightarrow> True | Some p \<Rightarrow> chain_clean p)"

text \<open>The record's own \<^verbatim>\<open>flush\<close> step is rejected with \<open>e\<close> after the pre-update hooks have
  passed: by the validation of a changed field, or by the storage update.\<close>

definition own_flush_fails :: "Record \<Rightarrow> world \<Rightarrow> error \<Rightarrow> bool" where
  "own_flush_fails r w e =
     (first_error (map (\<lambda>f. fd_pre_update f (rec_data (st r)) (rec_changes (st r)))
                     (md_fields (rec_model (st r)))) = None
      \<and> (case build_update (md_fields (rec_model (st r))) (st r) [] of
            Inl e' \<Rightarrow> e' = e
          | Inr upd \<Rightarrow>
              upd \<noteq> []
              \<and> update_outcome w (effects w) (md_name (rec_model (st r)))
                   (read_property r ''id'') upd = Some e))"

subsection \<open>Examples\<close>

definition plain_field :: "string \<Rightarrow> Field" where
  "plain_field n = \<lparr> fd_name = n, fd_column = n, fd_stored = True,
     fd_isDiscriminator = False,
     fd_deserialize = (\<lambda>v. v),
     fd_serialize = (\<lambda>d c. if hasOwnProperty c n then get_prop c n else get_prop d n),
     fd_toJSON = (\<lambda>d c. if hasOwnProperty c n then get_prop c n else get_prop d n),
     fd_validate = (\<lambda>d c. None),
     fd_pre_update = (\<lambda>d c. None), fd_post_update = (\<lambda>d c. None),
     fd_pre_create = (\<lambda>d c. None), fd_post_create = (\<lambda>d c. None) \<rparr>"

definition required_field :: "string \<Rightarrow> Field" where
  "required_field n = (plain_field n)\<lparr> fd_validate :=
     (\<lambda>d c. if truthy (if hasOwnProperty c n then get_prop c n else get_prop d n) then None
             else Some (Error (''Field '' @ n @ '' is required''))) \<rparr>"

definition Users :: ModelInfo where
  "Users = \<lparr> md_name = ''Users'',
     md_fields = [plain_field ''id'', required_field ''email'', plain_field ''name''],
     md_primaryColumn = ''id'', md_cache = False, md_cacheTTL = None,
     md_cacheInvalidation = False \<rparr>"

definition quiet_world :: world where
  "quiet_world = \<lparr> effects = [], update_outcome = (\<lambda>log t i u. None),
     insert_outcome = (\<lambda>log t u. Inr (JNum (1 + int (length log)))),
     last_row_id = (\<lambda>log t. JUndef), transactional = False \<rparr>"

definition user_with_blank_email :: Record where
  "user_with_blank_email = Record
     \<lparr> rec_model = Users, rec_changes = [(''email'', JStr '''')],
       rec_data = [(''id'', JNum 1), (''email'', JStr ''a@example.com'')],
       rec_isReady = Ready, rec_flushed = False, rec_isDirty = True \<rparr> None"

text \<open>A key names a field of the record's Model or of a Model of its parent chain; and the
  Model at the root of the chain.\<close>

fun recognized :: "Record \<Rightarrow> string \<Rightarrow> bool" where
  "recognized (Record s None) k = (own_field s k \<noteq> None)"
| "recognized (Record s (Some p)) k = (own_field s k \<noteq> None \<or> recognized p k)"

fun root_model :: "Record \<Rightarrow> ModelInfo" where
  "root_model (Record s None) = rec_model s"
| "root_model (Record s (Some p)) = root_model p"

definition Party :: ModelInfo where
  "Party = \<lparr> md_name = ''Party'', md_fields = [plain_field ''id'', plain_field ''label''],
     md_primaryColumn = ''id'', md_cache = False, md_cacheTTL = None,
     md_cacheInvalidation = False \<rparr>"

definition Person :: ModelInfo where
  "Person = \<lparr> md_name = ''Person'', md_fields = [plain_field ''id'', plain_field ''nickname''],
     md_primaryColumn = ''id'', md_cache = False, md_cacheTTL = None,
     md_cacheInvalidation = False \<rparr>"

definition party :: "bool \<Rightarrow> Record" where
  "party dirty = Record
     \<lparr> rec_model = Party, rec_changes = (if dirty then [(''label'', JStr ''x'')] else []),
       rec_data = [(''id'', JNum 7), (''label'', JStr ''old'')],
       rec_isReady = Ready, rec_flushed = False, rec_isDirty = dirty \<rparr> None"

definition person :: "bool \<Rightarrow> bool \<Rightarrow> Record" where
  "person dirty parent_dirty = Record
     \<lparr> rec_model = Person, rec_changes = (if dirty then [(''nickname'', JStr ''Al'')] else []),
       rec_data = [(''id'', JNum 7), (''nickname'', JStr ''Bert'')],
       rec_isReady = Ready, rec_flushed = False, rec_isDirty = dirty \<rparr>
     (Some (party parent_dirty))"

definition fresh_row :: AnyMap where
  "fresh_row = [(''id'', JNum 99), (''nickname'', JStr ''Carl''), (''label'', JStr ''new'')]"

definition mixed_data :: AnyMap where
  "mixed_data = [(''nickname'', JStr ''Zed''), (''bogus'', JNum 1), (''label'', JStr ''L'')]"

definition known_data :: AnyMap where
  "known_data = [(''nickname'', JStr ''Zed''), (''label'', JStr ''L'')]"

section \<open>Model\<close>

text \<open>A Model after initialisation, as \<^verbatim>\<open>allocate\<close> and \<^verbatim>\<open>create\<close> use it: what its Records
  read (\<open>mc_info\<close>), the table, the abstract flag, the reference field, the name of the
  discriminator field on the parent (\<^verbatim>\<open>inheritField.name\<close>) and the identity map from
  primary-key value to instance. \<open>mc_children\<close> lists the registered Models whose
  \<^verbatim>\<open>inherits\<close> is this Model's name, which is what the repository lookups in \<^verbatim>\<open>allocate\<close>
  decide. A Model holds its parent Model (\<^verbatim>\<open>super\<close>).\<close>

record ModelCore =
  mc_info :: ModelInfo
  mc_table :: string
  mc_abstract :: bool
  mc_refField :: "Field option"
  mc_children :: "string list"
  mc_inheritField :: string
  mc_entities :: "(jv \<times> nat) list"

datatype Model = Model (core: ModelCore) (super: "Model option")

text \<open>Instances live in a store of objects; an instance is known by its reference, so that
  "the same instance" is "the same reference". A Record holds its parent Record by value
  (the child owns it).\<close>

record objects =
  object_at :: "nat \<Rightarrow> Record"
  next_ref :: nat

definition new_object :: "Record \<Rightarrow> objects \<Rightarrow> nat \<times> objects" where
  "new_object r h =
     (next_ref h, h\<lparr> object_at := (object_at h)(next_ref h := r), next_ref := next_ref h + 1 \<rparr>)"

definition set_object :: "nat \<Rightarrow> Record \<Rightarrow> objects \<Rightarrow> objects" where
  "set_object a r h = h\<lparr> object_at := (object_at h)(a := r) \<rparr>"

definition checkAbstract :: "ModelCore \<Rightarrow> error option" where
  "checkAbstract c =
     (if mc_abstract c
      then Some (Error (''Cannot instantiate abstract model '' @ md_name (mc_info c)))
      else None)"

definition entities_set :: "jv \<Rightarrow> nat \<Rightarrow> Model \<Rightarrow> Model" where
  "entities_set pk a m =
     Model ((core m)\<lparr> mc_entities := AList.update pk a (mc_entities (core m)) \<rparr>) (super m)"

subsection \<open>allocate\<close>

text \<open>The discriminator field: the reference field when it is marked, else the first marked
  field.\<close>

definition discField :: "ModelCore \<Rightarrow> Field option" where
  "discField c =
     (case mc_refField c of
        Some f \<Rightarrow> if fd_isDiscriminator f then Some f
                  else find fd_isDiscriminator (md_fields (mc_info c))
      | None \<Rightarrow> find fd_isDiscriminator (md_fields (mc_info c)))"

text \<open>Where \<^verbatim>\<open>allocate\<close> sends the data before it looks at the identity map: to a child
  Model (\<^verbatim>\<open>repo.get(name).allocate(data)\<close>), to an error, or nowhere.\<close>

datatype route = NoRoute | RouteTo string | RouteError error

definition nullish :: "jv \<Rightarrow> bool" where
  "nullish v = (v = JUndef \<or> v = JNull)"

definition names_child :: "ModelCore \<Rightarrow> jv \<Rightarrow> bool" where
  "names_child c v = (case v of JStr s \<Rightarrow> s \<in> set (mc_children c) | _ \<Rightarrow> False)"

definition allocate_route :: "ModelCore \<Rightarrow> AnyMap \<Rightarrow> bool \<Rightarrow> route" where
  "allocate_route c d ignoreDiscriminator =
     (if ignoreDiscriminator then NoRoute
      else
        (case discField c of
           Some df \<Rightarrow>
             (let byName = (if fd_name df \<noteq> [] \<and> hasOwnProperty d (fd_name df)
                            then get_prop d (fd_name df) else JUndef);
                  byColumn = (if fd_column df \<noteq> [] \<and> hasOwnProperty d (fd_column df)
                              then get_prop d (fd_column df) else JUndef);
                  discValue = (if nullish byName then byColumn else byName)
              in if \<not> truthy discValue
                 then RouteError (Error (''Cannot allocate model '' @ md_name (mc_info c)
                                          @ '' without discriminator field '' @ fd_name df))
                 else (case discValue of
                         JStr s \<Rightarrow> RouteTo s
                       | _ \<Rightarrow> RouteError (Error ''Model not registered'')))
         | None \<Rightarrow>
             (case find (\<lambda>(k, v). names_child c v) d of
                Some (k, JStr s) \<Rightarrow> RouteTo s
              | _ \<Rightarrow>
                  (let dv = (if nullish (get_prop d ''class'') then get_prop d ''_inherit''
                             else get_prop d ''class'')
                   in if names_child c dv then (case dv of JStr s \<Rightarrow> RouteTo s | _ \<Rightarrow> NoRoute)
                      else NoRoute))))"

text \<open>The construction of a new instance at the end of \<^verbatim>\<open>allocate\<close>, given the parent
  instance (if the Model inherits): the constructor, the registration under \<^verbatim>\<open>data.id\<close> in
  this Model's identity map and in the parent Model's, and the pending hydration of a
  partially specified row.\<close>

definition construct :: "ModelCore \<Rightarrow> Model option \<Rightarrow> AnyMap \<Rightarrow> Record option \<Rightarrow> objects
    \<Rightarrow> nat \<times> Model \<times> objects" where
  "construct c superModel d parent h =
     (let instance = Record_new (mc_info c) d parent;
          pk = get_prop d ''id'';
          instance = (if truthy pk \<and> rec_isReady (st instance) = NotReady
                      then Record ((st instance)\<lparr> rec_isReady := Hydrating \<rparr>) (rec_parent instance)
                      else instance);
          (a, h) = new_object instance h;
          c = (if truthy pk then c\<lparr> mc_entities := AList.update pk a (mc_entities c) \<rparr> else c);
          superModel = (if truthy pk then map_option (entities_set pk a) superModel else superModel)
      in (a, Model c superModel, h))"

text \<open>\<^verbatim>\<open>allocate\<close> once no routing applies, which is also \<^verbatim>\<open>allocate(data, true)\<close> as the
  parent chain and \<^verbatim>\<open>create\<close> call it: the identity-map lookup, and otherwise the
  construction of a new instance on top of the parent Model's instance.\<close>

fun allocate_here :: "Model \<Rightarrow> AnyMap \<Rightarrow> objects \<Rightarrow> (error + nat) \<times> Model \<times> objects" where
  "allocate_here (Model c superModel) d h =
     (case checkAbstract c of
        Some e \<Rightarrow> (Inl e, Model c superModel, h)
      | None \<Rightarrow>
          (case (if truthy (get_prop d ''id'') then map_of (mc_entities c) (get_prop d ''id'')
                 else None) of
             Some a \<Rightarrow> (Inr a, Model c superModel, set_object a (sync (object_at h a) d) h)
           | None \<Rightarrow>
               (case superModel of
                  None \<Rightarrow>
                    (case construct c None d None h of (a, m, h) \<Rightarrow> (Inr a, m, h))
                | Some p \<Rightarrow>
                    (case allocate_here p
                            (assign d (mc_inheritField c) (JStr (md_name (mc_info c)))) h of
                       (Inl e, p, h) \<Rightarrow> (Inl e, Model c (Some p), h)
                     | (Inr pa, p, h) \<Rightarrow>
                         (case construct c (Some p) d (Some (object_at h pa)) h of
                            (a, m, h) \<Rightarrow> (Inr a, m, h))))))"

datatype allocated = Instance nat | Delegated string

definition allocate :: "Model \<Rightarrow> AnyMap \<Rightarrow> bool \<Rightarrow> objects \<Rightarrow> (error + allocated) \<times> Model \<times> objects" where
  "allocate m d ignoreDiscriminator h =
     (case checkAbstract (core m) of
        Some e \<Rightarrow> (Inl e, m, h)
      | None \<Rightarrow>
          (case allocate_route (core m) d ignoreDiscriminator of
             RouteError e \<Rightarrow> (Inl e, m, h)
           | RouteTo s \<Rightarrow> (Inr (Delegated s), m, h)
           | NoRoute \<Rightarrow>
               (case allocate_here m d h of
                  (Inl e, m, h) \<Rightarrow> (Inl e, m, h)
                | (Inr a, m, h) \<Rightarrow> (Inr (Instance a), m, h))))"

text \<open>A run of \<^verbatim>\<open>allocate\<close> calls on one Model, collecting what each returns.\<close>

fun allocate_all :: "Model \<Rightarrow> AnyMap list \<Rightarrow> bool \<Rightarrow> objects
    \<Rightarrow> (error + allocated) list \<times> Model \<times> objects" where
  "allocate_all m [] ignoreDiscriminator h = ([], m, h)"
| "allocate_all m (d # ds) ignoreDiscriminator h =
     (case allocate m d ignoreDiscriminator h of
        (res, m', h') \<Rightarrow>
          (case allocate_all m' ds ignoreDiscriminator h' of
             (rs, m'', h'') \<Rightarrow> (res # rs, m'', h'')))"

subsection \<open>create\<close>

text \<open>Modelled from the spec: the setter side of the accessor pair (see \<open>read_property\<close>),
  for an assignment \<^verbatim>\<open>record[name] = v\<close>. An own field records the pending change and marks
  the record dirty; a field declared only by the parent Model delegates to \<^verbatim>\<open>_parent\<close>; any
  other name is a plain property and leaves the field state alone.\<close>

fun write_property :: "Record \<Rightarrow> string \<Rightarrow> jv \<Rightarrow> Record" where
  "write_property (Record s p) name v =
     (case own_field s name of
        Some f \<Rightarrow> Record (field_set s f v) p
      | None \<Rightarrow>
          (case p of
             None \<Rightarrow> Record s p
           | Some (Record ps pp) \<Rightarrow>
               (case own_field ps name of
                  Some f \<Rightarrow> Record s (Some (Record (field_set ps f v) pp))
                | None \<Rightarrow> Record s p)))"

text \<open>The loop of \<^verbatim>\<open>create\<close> over the fields: the field's \<^verbatim>\<open>pre_create\<close> hook is started, and a
  stored field is validated and serialized into the insert payload unless it serializes to
  \<^verbatim>\<open>undefined\<close>.\<close>

fun build_insert :: "Field list \<Rightarrow> RecordState \<Rightarrow> AnyMap \<Rightarrow> error option list
    \<Rightarrow> error + AnyMap \<times> error option list" where
  "build_insert [] s toInsert pre_create = Inr (toInsert, pre_create)"
| "build_insert (field # rest) s toInsert pre_create =
     (let pre_create = pre_create @ [fd_pre_create field (rec_data s) (rec_changes s)]
      in if \<not> fd_stored field then build_insert rest s toInsert pre_create
         else (case fd_validate field (rec_data s) (rec_changes s) of
                 Some e \<Rightarrow> Inl e
               | None \<Rightarrow>
                   (let v = fd_serialize field (rec_data s) (rec_changes s)
                    in build_insert rest s
                         (if v \<noteq> JUndef then assign toInsert (fd_column field) v else toInsert)
                         pre_create)))"

text \<open>The insert of a Model without parent: \<^verbatim>\<open>insert(...).returning('id')\<close>, and when that is
  rejected the fallback, a second insert followed by a read of the last row's id. The
  result is the first element of the returned array.\<close>

definition insert_returning :: "string \<Rightarrow> AnyMap \<Rightarrow> world \<Rightarrow> (error + jv) \<times> world" where
  "insert_returning table toInsert w =
     (let first = insert_outcome w (effects w) table toInsert;
          w = log_effect (StorageInsert table toInsert) w
      in case first of
           Inr ret \<Rightarrow> (Inr ret, w)
         | Inl e1 \<Rightarrow>
             (let second = insert_outcome w (effects w) table toInsert;
                  w = log_effect (StorageInsert table toInsert) w
              in case second of
                   Inl e \<Rightarrow> (Inl e, w)
                 | Inr ret \<Rightarrow> (Inr (last_row_id w (effects w) table), w)))"

text \<open>\<^verbatim>\<open>id.id ? id.id : id\<close>; reading a property of \<^verbatim>\<open>undefined\<close> or \<^verbatim>\<open>null\<close> throws.\<close>

definition generated_id :: "jv \<Rightarrow> error + jv" where
  "generated_id ret =
     (if nullish ret then Inl (Error ''TypeError: Cannot read properties of undefined'')
      else Inr (if truthy (read_member ret ''id'') then read_member ret ''id'' else ret))"

text \<open>The insert itself. A Model without parent inserts with \<^verbatim>\<open>returning\<close> and gives the
  record the generated id unless it has one; an inheriting Model inserts the payload as it
  is (it carries the parent's key).\<close>

definition insert_row :: "Model \<Rightarrow> AnyMap \<Rightarrow> Record \<Rightarrow> world \<Rightarrow> error option \<times> Record \<times> world" where
  "insert_row m toInsert r w =
     (case super m of
        None \<Rightarrow>
          (case insert_returning (mc_table (core m)) toInsert w of
             (Inl e, w) \<Rightarrow> (Some e, r, w)
           | (Inr ret, w) \<Rightarrow>
               if \<not> truthy (read_property r ''id'')
               then (case generated_id ret of
                       Inl e \<Rightarrow> (Some e, r, w)
                     | Inr g \<Rightarrow> (None, write_property r ''id'' g, w))
               else (None, r, w))
      | Some p \<Rightarrow>
          (case insert_outcome w (effects w) (mc_table (core m)) toInsert of
             Inl e \<Rightarrow> (Some e, r, log_effect (StorageInsert (mc_table (core m)) toInsert) w)
           | Inr ret \<Rightarrow> (None, r, log_effect (StorageInsert (mc_table (core m)) toInsert) w)))"

text \<open>After the insert: the cache entry (or the \<^verbatim>\<open>_flushed\<close> mark when the Model does not
  cache or the repository is transactional), then the pending changes become data.\<close>

definition settle_created :: "ModelInfo \<Rightarrow> Record \<Rightarrow> world \<Rightarrow> Record \<times> world" where
  "settle_created info r w =
     (let cached = (md_cache info \<and> \<not> transactional w);
          w = (if cached
               then log_effect (CacheSet (md_name info) (read_property r ''id'')
                                  (toRawJSON (st r)) (md_cacheTTL info)) w
               else w);
          s = (if cached then st r else (st r)\<lparr> rec_flushed := True \<rparr>);
          s = s\<lparr> rec_isDirty := False,
                 rec_data := foldl (\<lambda>dt (k, v). assign dt k v) (rec_data s) (rec_changes s),
                 rec_changes := [] \<rparr>
      in (Record s (rec_parent r), w))"

text \<open>\<^verbatim>\<open>create\<close> from the allocation of the record on: \<open>d\<close> is the data object, already
  carrying the parent's key when the Model inherits. The record is updated in the object
  store as the steps go, so a failure leaves it as far as it got.\<close>

definition create_record :: "Model \<Rightarrow> AnyMap \<Rightarrow> objects \<Rightarrow> world
    \<Rightarrow> (error + nat) \<times> Model \<times> objects \<times> world" where
  "create_record m d h w =
     (case allocate_here m d h of
        (Inl e, m, h) \<Rightarrow> (Inl e, m, h, w)
      | (Inr a, m, h) \<Rightarrow>
          (let info = mc_info (core m); r = object_at h a
           in case build_insert (md_fields info) (st r) [] [] of
                Inl e \<Rightarrow> (Inl e, m, h, w)
              | Inr (toInsert, pre_create) \<Rightarrow>
                  (case first_error pre_create of
                     Some e \<Rightarrow> (Inl e, m, h, w)
                   | None \<Rightarrow>
                       (case insert_row m toInsert r w of
                          (Some e, r, w) \<Rightarrow> (Inl e, m, set_object a r h, w)
                        | (None, r, w) \<Rightarrow>
                            (case settle_created info r w of
                               (r, w) \<Rightarrow>
                                 (let h = set_object a r h
                                  in case first_error
                                            (map (\<lambda>f. fd_post_create f (rec_data (st r))
                                                         (rec_changes (st r)))
                                               (md_fields info)) of
                                       Some e \<Rightarrow> (Inl e, m, h, w)
                                     | None \<Rightarrow>
                                         (let m = Model (core m)
                                                    (map_option
                                                       (entities_set (read_property r ''id'') a)
                                                       (super m));
                                              w = log_effect (Emit (md_name info) ''create'') w;
                                              w = (if md_cacheInvalidation info
                                                   then log_effect (InvalidateCache (md_name info)) w
                                                   else w)
                                          in (Inr a, m, h, w))))))))"

text \<open>\<^verbatim>\<open>create(data)\<close>. An inheriting Model first creates the parent row from a copy of the data
  that carries the discriminator, then writes the parent's key into the caller's data.
  The result carries the caller's data object as the call leaves it.\<close>

fun create :: "Model \<Rightarrow> AnyMap \<Rightarrow> objects \<Rightarrow> world
    \<Rightarrow> (error + nat) \<times> Model \<times> AnyMap \<times> objects \<times> world" where
  "create (Model c superModel) d h w =
     (case checkAbstract c of
        Some e \<Rightarrow> (Inl e, Model c superModel, d, h, w)
      | None \<Rightarrow>
          (case superModel of
             None \<Rightarrow>
               (case create_record (Model c None) d h w of
                  (res, m, h, w) \<Rightarrow> (res, m, d, h, w))
           | Some p \<Rightarrow>
               (case create p (assign d (mc_inheritField c) (JStr (md_name (mc_info c)))) h w of
                  (Inl e, p, pd, h, w) \<Rightarrow> (Inl e, Model c (Some p), d, h, w)
                | (Inr pa, p, pd, h, w) \<Rightarrow>
                    (let d = assign d ''id'' (read_property (object_at h pa) ''id'')
                     in case create_record (Model c (Some p)) d h w of
                          (res, m, h, w) \<Rightarrow> (res, m, d, h, w)))))"

subsection \<open>Predicates used by the properties\<close>

text \<open>A field that stores what it is given: \<^verbatim>\<open>deserialize\<close> is the identity and
  \<^verbatim>\<open>serialize\<close> returns the pending change of its column, or else the column's data.\<close>

definition transparent :: "Field \<Rightarrow> bool" where
  "transparent f =
     ((\<forall>v. fd_deserialize f v = v)
      \<and> (\<forall>d c. fd_serialize f d c =
                  (if hasOwnProperty c (fd_column f) then get_prop c (fd_column f)
                   else get_prop d (fd_column f))))"

text \<open>The storage inserts among the effects, in the order issued, as (table, payload).\<close>

fun insert_of :: "effect \<Rightarrow> (string \<times> AnyMap) option" where
  "insert_of (StorageInsert t u) = Some (t, u)"
| "insert_of e = None"

definition inserts :: "world \<Rightarrow> (string \<times> AnyMap) list" where
  "inserts w = List.map_filter insert_of (effects w)"

text \<open>The field state of a freshly constructed record.\<close>

definition blank_state :: "ModelInfo \<Rightarrow> RecordState" where
  "blank_state info = \<lparr> rec_model = info, rec_changes = [], rec_data = [], rec_isReady = NotReady,
     rec_flushed = False, rec_isDirty = False \<rparr>"


text \<open>Two states of a Model that differ at most in the identity map; and the field of a
  Model with a given name (\<^verbatim>\<open>fields[name]\<close>).\<close>

definition same_schema :: "ModelCore \<Rightarrow> ModelCore \<Rightarrow> bool" where
  "same_schema c' c = (c' = c\<lparr> mc_entities := mc_entities c' \<rparr>)"




subsection \<open>Example Models\<close>

definition Animal :: ModelInfo where
  "Animal = \<lparr> md_name = ''Animal'',
     md_fields = [plain_field ''id'', plain_field ''name'',
                  (plain_field ''_inherit'')\<lparr> fd_isDiscriminator := True \<rparr>],
     md_primaryColumn = ''id'', md_cache = False, md_cacheTTL = None,
     md_cacheInvalidation = False \<rparr>"

definition Dog :: ModelInfo where
  "Dog = \<lparr> md_name = ''Dog'', md_fields = [plain_field ''id'', plain_field ''breed''],
     md_primaryColumn = ''id'', md_cache = False, md_cacheTTL = None,
     md_cacheInvalidation = False \<rparr>"

definition animal_core :: ModelCore where
  "animal_core = \<lparr> mc_info = Animal, mc_table = ''animal'', mc_abstract = False,
     mc_refField = Some ((plain_field ''_inherit'')\<lparr> fd_isDiscriminator := True \<rparr>),
     mc_children = [''Dog''], mc_inheritField = [], mc_entities = [] \<rparr>"

definition dog_core :: ModelCore where
  "dog_core = \<lparr> mc_info = Dog, mc_table = ''dog'', mc_abstract = False,
     mc_refField = None, mc_children = [], mc_inheritField = ''_inherit'', mc_entities = [] \<rparr>"

definition users_core :: ModelCore where
  "users_core = \<lparr> mc_info = Users, mc_table = ''users'', mc_abstract = False,
     mc_refField = None, mc_children = [], mc_inheritField = [], mc_entities = [] \<rparr>"

definition no_objects :: objects where
  "no_objects = \<lparr> object_at = (\<lambda>a. Record (blank_state Users) None), next_ref = 0 \<rparr>"

definition rex :: AnyMap where
  "rex = [(''name'', JStr ''Rex''), (''breed'', JStr ''Collie'')]"

definition user_row :: "string \<Rightarrow> AnyMap" where
  "user_row n = [(''id'', JNum 1), (''email'', JStr ''a@example.com''), (''name'', JStr n)]"

definition tracked_users :: Model where
  "tracked_users = Model (users_core\<lparr> mc_entities := [(JNum 1, 0)] \<rparr>) None"

definition one_user :: objects where
  "one_user = \<lparr> object_at = (object_at no_objects)
       (0 := Record \<lparr> rec_model = Users, rec_changes = [], rec_data = user_row ''Ann'',
                       rec_isReady = Ready, rec_flushed = False, rec_isDirty = False \<rparr> None),
     next_ref = 1 \<rparr>"







section \<open>Verified properties\<close>

subsection \<open>Scope merging\<close>

lemma applyScopes_loop_registered:
  "\<forall>r\<in>set reqs. hasScope sb (scope_name r) \<Longrightarrow>
   applyScopes_loop sb m reqs = Inr (foldl mergeOptions m (map (resolved_options sb) reqs))"
  by (induction reqs arbitrary: m) (auto simp: hasScope_def resolved_options_def)


lemma so_where_mergeOptions:
  "so_where (mergeOptions base incoming) =
     (if truthy (so_where incoming) then mergeWhere (so_where base) (so_where incoming)
      else so_where base)"
  by (simp add: mergeOptions_def Let_def split: option.splits)

lemma so_cache_mergeOptions:
  "so_cache (mergeOptions base incoming) =
     (case so_cache incoming of Some c \<Rightarrow> Some c | None \<Rightarrow> so_cache base)"
  by (simp add: mergeOptions_def Let_def split: option.splits)

lemma so_order_mergeOptions:
  "so_order (mergeOptions base incoming) =
     (case so_order incoming of Some c \<Rightarrow> Some c | None \<Rightarrow> so_order base)"
  by (simp add: mergeOptions_def Let_def split: option.splits)

lemma so_limit_mergeOptions:
  "so_limit (mergeOptions base incoming) =
     (case so_limit incoming of Some c \<Rightarrow> Some c | None \<Rightarrow> so_limit base)"
  by (simp add: mergeOptions_def Let_def split: option.splits)

lemma so_offset_mergeOptions:
  "so_offset (mergeOptions base incoming) =
     (case so_offset incoming of Some c \<Rightarrow> Some c | None \<Rightarrow> so_offset base)"
  by (simp add: mergeOptions_def Let_def split: option.splits)

lemma so_attributes_mergeOptions:
  "so_attributes (mergeOptions base incoming) =
     (case so_attributes incoming of Some c \<Rightarrow> Some c | None \<Rightarrow> so_attributes base)"
  by (simp add: mergeOptions_def Let_def split: option.splits)

text \<open>
  C1. When two scope options are merged and both carry a where-predicate, the result is
  their conjunction: the incoming predicate is appended to the accumulated top-level 'and'
  list when there is one, and otherwise a new 'and' node over [base, incoming] is built.
  (With only one predicate present there is nothing to combine and that predicate is kept.)
  For cache, order, limit, offset and attributes the incoming value replaces the accumulated
  one whenever the incoming scope defines it. \<^verbatim>\<open>applyScopes\<close> merges the default scope first
  and then the requested scopes from left to right.
\<close>

theorem scope_merge_policy:
  "(truthy (so_where base) \<and> truthy (so_where incoming) \<longrightarrow>
      so_where (mergeOptions base incoming) =
        (case and_list (so_where base) of
           Some xs \<Rightarrow> JObj [(''and'', JArr (xs @ [so_where incoming]))]
         | None \<Rightarrow> JObj [(''and'', JArr [so_where base, so_where incoming])]))
   \<and> (\<not> truthy (so_where base) \<and> truthy (so_where incoming) \<longrightarrow>
      so_where (mergeOptions base incoming) = so_where incoming)
   \<and> (\<not> truthy (so_where incoming) \<longrightarrow>
      so_where (mergeOptions base incoming) = so_where base)
   \<and> (\<forall>c. so_cache incoming = Some c \<longrightarrow> so_cache (mergeOptions base incoming) = Some c)
   \<and> (\<forall>c. so_order incoming = Some c \<longrightarrow> so_order (mergeOptions base incoming) = Some c)
   \<and> (\<forall>c. so_limit incoming = Some c \<longrightarrow> so_limit (mergeOptions base incoming) = Some c)
   \<and> (\<forall>c. so_offset incoming = Some c \<longrightarrow> so_offset (mergeOptions base incoming) = Some c)
   \<and> (\<forall>c. so_attributes incoming = Some c \<longrightarrow>
         so_attributes (mergeOptions base incoming) = Some c)
   \<and> ((\<forall>r\<in>set reqs. hasScope sb (scope_name r)) \<longrightarrow>
        applyScopes sb reqs includeDefault =
          Inr (foldl mergeOptions (start_options sb includeDefault)
                 (map (resolved_options sb) reqs)))"
  by (simp add: so_where_mergeOptions so_cache_mergeOptions so_order_mergeOptions
      so_limit_mergeOptions so_offset_mergeOptions so_attributes_mergeOptions mergeWhere_def
      applyScopes_def start_options_def applyScopes_loop_registered
      split: option.splits)

text \<open>
  Witness for C1: the default scope {active: true} followed by A and then B. The first merge
  builds the 'and' node, the second appends to it; B, applied last, decides cache, order,
  limit, offset and attributes.
\<close>

theorem scope_merge_policy_witness:
  "truthy where_active \<and> truthy (so_where scope_A)
   \<and> hasScope example_builder (scope_name (ScopeName ''A''))
   \<and> hasScope example_builder (scope_name (ScopeName ''B''))
   \<and> so_where (mergeOptions (empty_options\<lparr> so_where := where_active \<rparr>) scope_A) =
       JObj [(''and'', JArr [where_active, where_featured])]
   \<and> so_limit (mergeOptions (empty_options\<lparr> so_where := where_active \<rparr>) scope_A) = Some 10
   \<and> applyScopes example_builder [ScopeName ''A'', ScopeName ''B''] True =
       Inr \<lparr> so_where = JObj [(''and'', JArr [where_active, where_featured, where_recent])],
             so_include = None, so_cache = Some (CacheFlag True),
             so_order = Some [(''y'', DESC)], so_limit = Some 3, so_offset = Some 0,
             so_attributes = Some [''id'', ''title''] \<rparr>"
  using scope_merge_policy [of "empty_options\<lparr> so_where := where_active \<rparr>" scope_A
      "[ScopeName ''A'', ScopeName ''B'']" example_builder True]
  by (simp add: hasScope_def example_builder_def scope_A_def scope_B_def empty_options_def
      where_active_def where_featured_def where_recent_def and_list_def get_prop_def
      start_options_def resolved_options_def mergeOptions_def mergeWhere_def)

subsection \<open>Undefined scopes\<close>



subsection \<open>Cache eviction marker\<close>

lemma InMemoryCacheAdapter_get_after_set:
  "fst (InMemoryCacheAdapter_get now (snd (InMemoryCacheAdapter_set created c key v ttl)) key marker)
     = (if created + ttl * 1000 < now then JNull
        else if (case marker of Some t \<Rightarrow> t \<noteq> 0 \<and> created + ttl * 1000 \<le> t | None \<Rightarrow> False)
        then JNull else v)"
  by (simp add: InMemoryCacheAdapter_get_def InMemoryCacheAdapter_set_def Let_def
      update_conv' split: option.splits)

text \<open>
  C3. An entry stored at time 1000 with a TTL of 10 seconds expires at 11000. Read at time
  3000 with the eviction marker 2000, which is later than the entry's creation, it is still
  returned: \<^verbatim>\<open>get\<close> compares the marker with the expiry time, not with the creation time.
\<close>

theorem InMemoryCacheAdapter_get_stale_hit:
  "fst (InMemoryCacheAdapter_get 3000
          (snd (InMemoryCacheAdapter_set 1000 InMemoryCacheAdapter_new ''k'' (JStr ''v'') 10))
          ''k'' (Some 2000)) = JStr ''v''"
  by (simp add: InMemoryCacheAdapter_get_def InMemoryCacheAdapter_set_def
      InMemoryCacheAdapter_new_def)

subsection \<open>Request execution\<close>

lemma qb_call_frame [simp]:
  "rq_model (qb_call c r) = rq_model r"
  "rq_scopesApplied (qb_call c r) = rq_scopesApplied r"
  "rq_scopeRequests (qb_call c r) = rq_scopeRequests r"
  "rq_applyDefaultScope (qb_call c r) = rq_applyDefaultScope r"
  by (simp_all add: qb_call_def)

lemma Request_cache_frame [simp]:
  "rq_model (Request_cache t r) = rq_model r"
  "rq_scopesApplied (Request_cache t r) = rq_scopesApplied r"
  by (simp_all add: Request_cache_def)

lemma Request_include_frame [simp]:
  "rq_model (Request_include l r) = rq_model r"
  "rq_scopesApplied (Request_include l r) = rq_scopesApplied r"
  by (simp_all add: Request_include_def)

lemma foldl_include_frame [simp]:
  "rq_model (foldl (\<lambda>q inc. Request_include [relation inc] q) r incs) = rq_model r"
  "rq_scopesApplied (foldl (\<lambda>q inc. Request_include [relation inc] q) r incs) = rq_scopesApplied r"
  by (induction incs arbitrary: r) simp_all

lemma foldl_order_frame [simp]:
  "rq_model (foldl (\<lambda>q (field, dir). qb_call (CallOrderBy field dir) q) r ords) = rq_model r"
  "rq_scopesApplied (foldl (\<lambda>q (field, dir). qb_call (CallOrderBy field dir) q) r ords)
     = rq_scopesApplied r"
  by (induction ords arbitrary: r) (simp_all split: prod.splits)

lemma push_scope_options_frame [simp]:
  "rq_model (push_scope_options so r) = rq_model r"
  "rq_scopesApplied (push_scope_options so r) = rq_scopesApplied r"
  by (simp_all add: push_scope_options_def Let_def
      split: option.splits cache_directive.splits bool.splits)

lemma ensureDefaultIdSelect_frame [simp]:
  "rq_model (ensureDefaultIdSelect r) = rq_model r"
  "rq_scopesApplied (ensureDefaultIdSelect r) = rq_scopesApplied r"
  by (simp_all add: ensureDefaultIdSelect_def Let_def split: option.splits)

lemma applyScopes_of_request_applied:
  "rq_scopesApplied r \<Longrightarrow> applyScopes_of_request r w = (None, r, w)"
  by (simp add: applyScopes_of_request_def)











lemma get_prop_assign [simp]:
  "get_prop (assign m k v) k' = (if k' = k then v else get_prop m k')"
  by (simp add: get_prop_def assign_def update_conv')

lemma hasOwnProperty_assign [simp]:
  "hasOwnProperty (assign m k v) k' = (k' = k \<or> hasOwnProperty m k')"
  by (simp add: hasOwnProperty_def assign_def update_conv')

lemma get_prop_delete_prop [simp]:
  "get_prop (delete_prop m k) k' = (if k' = k then JUndef else get_prop m k')"
  by (simp add: get_prop_def delete_prop_def delete_conv')

lemma hasOwnProperty_delete_prop [simp]:
  "hasOwnProperty (delete_prop m k) k' = (k' \<noteq> k \<and> hasOwnProperty m k')"
  by (simp add: hasOwnProperty_def delete_prop_def delete_conv')

lemma rec_model_sync_field [simp]: "rec_model (sync_field d s f) = rec_model s"
  by (simp add: sync_field_def Let_def)

lemma rec_model_foldl_sync_field [simp]: "rec_model (foldl (sync_field d) s fs) = rec_model s"
  by (induction fs arbitrary: s) simp_all

lemma sync_field_other_column:
  "fd_column f \<noteq> c \<Longrightarrow>
   get_prop (rec_data (sync_field d s f)) c = get_prop (rec_data s) c
   \<and> hasOwnProperty (rec_changes (sync_field d s f)) c = hasOwnProperty (rec_changes s) c
   \<and> get_prop (rec_changes (sync_field d s f)) c = get_prop (rec_changes s) c"
  by (auto simp: sync_field_def Let_def)

lemma foldl_sync_field_other_column:
  "c \<notin> fd_column ` set fs \<Longrightarrow>
   get_prop (rec_data (foldl (sync_field d) s fs)) c = get_prop (rec_data s) c
   \<and> hasOwnProperty (rec_changes (foldl (sync_field d) s fs)) c = hasOwnProperty (rec_changes s) c
   \<and> get_prop (rec_changes (foldl (sync_field d) s fs)) c = get_prop (rec_changes s) c"
proof (induction fs arbitrary: s)
  case Nil
  then show ?case by simp
next
  case (Cons f fs)
  then have "fd_column f \<noteq> c" "c \<notin> fd_column ` set fs" by auto
  then show ?case
    using Cons.IH [of "sync_field d s f"] sync_field_other_column [of f c d s] by simp
qed

text \<open>The primary-key column is never overwritten once it holds a truthy value.\<close>

lemma sync_field_primary_kept:
  "truthy (get_prop (rec_data s) (md_primaryColumn (rec_model s))) \<Longrightarrow>
   get_prop (rec_data (sync_field d s f)) (md_primaryColumn (rec_model s))
     = get_prop (rec_data s) (md_primaryColumn (rec_model s))"
  by (auto simp: sync_field_def Let_def)

lemma foldl_sync_field_primary_kept:
  "truthy (get_prop (rec_data s) (md_primaryColumn (rec_model s))) \<Longrightarrow>
   get_prop (rec_data (foldl (sync_field d) s fs)) (md_primaryColumn (rec_model s))
     = get_prop (rec_data s) (md_primaryColumn (rec_model s))"
proof (induction fs arbitrary: s)
  case Nil
  then show ?case by simp
next
  case (Cons f fs)
  have k: "get_prop (rec_data (sync_field d s f)) (md_primaryColumn (rec_model s))
     = get_prop (rec_data s) (md_primaryColumn (rec_model s))"
    using sync_field_primary_kept [OF Cons.prems] .
  then show ?case
    using Cons.IH [of "sync_field d s f"] Cons.prems by simp
qed

lemma foldl_sync_field_written:
  assumes "f \<in> set fs" "distinct (map fd_column fs)" "appears_in d f"
    and "fd_column f \<noteq> md_primaryColumn (rec_model s) \<or> \<not> primary_is_set s"
  shows "get_prop (rec_data (foldl (sync_field d) s fs)) (fd_column f)
           = fd_deserialize f (get_prop d (incoming_key d f))
         \<and> \<not> hasOwnProperty (rec_changes (foldl (sync_field d) s fs)) (fd_column f)"
proof -
  obtain pre post where sp: "fs = pre @ f # post"
    using assms(1) by (meson split_list)
  have npre: "fd_column f \<notin> fd_column ` set pre" and npost: "fd_column f \<notin> fd_column ` set post"
    using assms(2) unfolding sp by auto
  define s1 where "s1 = foldl (sync_field d) s pre"
  have m1: "rec_model s1 = rec_model s" by (simp add: s1_def)
  have d1: "get_prop (rec_data s1) (fd_column f) = get_prop (rec_data s) (fd_column f)"
    unfolding s1_def using foldl_sync_field_other_column [OF npre] by simp
  have guard: "\<not> (fd_column f = md_primaryColumn (rec_model s1)
                  \<and> truthy (get_prop (rec_data s1) (fd_column f)))"
    using assms(4) d1 m1 by (auto simp: primary_is_set_def)
  define s2 where "s2 = sync_field d s1 f"
  have w: "get_prop (rec_data s2) (fd_column f) = fd_deserialize f (get_prop d (incoming_key d f))
           \<and> \<not> hasOwnProperty (rec_changes s2) (fd_column f)"
    using guard assms(3)
    by (auto simp: s2_def sync_field_def Let_def incoming_key_def appears_in_def)
  have "foldl (sync_field d) s fs = foldl (sync_field d) s2 post"
    by (simp add: sp s1_def s2_def)
  then show ?thesis
    using foldl_sync_field_other_column [OF npost, of d s2] w by simp
qed

lemma st_sync: "st (sync r d) = sync_own d (st r)"
  by (cases r; cases "rec_parent r") auto

lemma rec_parent_sync: "rec_parent (sync r d) = map_option (\<lambda>p. sync p d) (rec_parent r)"
  by (cases r; cases "rec_parent r") auto

text \<open>
  C8. \<^verbatim>\<open>sync(data)\<close> hands the same data to the parent record, so the result holds the
  synced parent (in the source the parent is synced first, then the record's own fields).
  The primary-key column keeps its value when it already holds one (a truthy value, as
  the source tests it). For every other field of the Model whose name or column appears
  in \<^verbatim>\<open>data\<close> (the name taking precedence), the deserialized incoming value is written
  into \<^verbatim>\<open>_data\<close> under the field's column and the pending change of that column is
  removed. Columns are taken to be distinct between the fields of a Model.
\<close>

theorem sync_merges_external_data:
  "rec_parent (sync r d) = map_option (\<lambda>p. sync p d) (rec_parent r)
   \<and> sync r d = Record (sync_own d (st r)) (map_option (\<lambda>p. sync p d) (rec_parent r))
   \<and> (primary_is_set (st r) \<longrightarrow>
        get_prop (rec_data (st (sync r d))) (md_primaryColumn (rec_model (st r)))
          = get_prop (rec_data (st r)) (md_primaryColumn (rec_model (st r))))
   \<and> (\<forall>f \<in> set (md_fields (rec_model (st r))).
        distinct (map fd_column (md_fields (rec_model (st r)))) \<and> appears_in d f
        \<and> (fd_column f \<noteq> md_primaryColumn (rec_model (st r)) \<or> \<not> primary_is_set (st r)) \<longrightarrow>
          get_prop (rec_data (st (sync r d))) (fd_column f)
            = fd_deserialize f (get_prop d (incoming_key d f))
          \<and> \<not> hasOwnProperty (rec_changes (st (sync r d))) (fd_column f))"
proof -
  have a: "rec_parent (sync r d) = map_option (\<lambda>p. sync p d) (rec_parent r)"
    by (rule rec_parent_sync)
  have b: "sync r d = Record (sync_own d (st r)) (map_option (\<lambda>p. sync p d) (rec_parent r))"
    by (cases r; cases "rec_parent r") auto
  have c: "primary_is_set (st r) \<longrightarrow>
        get_prop (rec_data (st (sync r d))) (md_primaryColumn (rec_model (st r)))
          = get_prop (rec_data (st r)) (md_primaryColumn (rec_model (st r)))"
    using foldl_sync_field_primary_kept [of "st r" d "md_fields (rec_model (st r))"]
    by (simp add: st_sync sync_own_def Let_def primary_is_set_def)
  have e: "\<forall>f \<in> set (md_fields (rec_model (st r))).
        distinct (map fd_column (md_fields (rec_model (st r)))) \<and> appears_in d f
        \<and> (fd_column f \<noteq> md_primaryColumn (rec_model (st r)) \<or> \<not> primary_is_set (st r)) \<longrightarrow>
          get_prop (rec_data (st (sync r d))) (fd_column f)
            = fd_deserialize f (get_prop d (incoming_key d f))
          \<and> \<not> hasOwnProperty (rec_changes (st (sync r d))) (fd_column f)"
    using foldl_sync_field_written [of _ "md_fields (rec_model (st r))" d "st r"]
    by (simp add: st_sync sync_own_def Let_def)
  show ?thesis using a b c e by blast
qed

lemma storage_writes_log_effect [simp]:
  "storage_writes (log_effect e w) = storage_writes w + (if is_storage_write e then 1 else 0)"
  by (simp add: storage_writes_def log_effect_def)

lemma log_effect_frame [simp]:
  "update_outcome (log_effect e w) = update_outcome w"
  "insert_outcome (log_effect e w) = insert_outcome w"
  by (simp_all add: log_effect_def)

lemma build_update_isDirty [simp]:
  "build_update fs (s\<lparr> rec_isDirty := b \<rparr>) u = build_update fs s u"
  by (induction fs arbitrary: u) (simp_all split: option.splits)

lemma build_update_nonempty:
  "build_update fs s u = Inr upd \<Longrightarrow>
   (upd \<noteq> []) = (u \<noteq> [] \<or> list_ex (\<lambda>f. fd_stored f \<and> hasOwnProperty (rec_changes s) (fd_column f)) fs)"
proof (induction fs arbitrary: u)
  case Nil
  then show ?case by auto
next
  case (Cons f fs)
  have ne: "\<And>k v. assign u k v \<noteq> []"
    by (metis hasOwnProperty_assign hasOwnProperty_def map_of.simps(1))
  show ?case
    using Cons.prems Cons.IH ne
    by (auto split: if_splits option.splits)
qed

lemma flush_own_clean: "\<not> rec_isDirty (st r) \<Longrightarrow> flush_own r w = (None, r, w)"
  by (simp add: flush_own_def Let_def)

lemma flush_own_result:
  assumes "flush_own r w = (res, r', w')"
  shows "\<not> rec_isDirty (st r') \<and> rec_parent r' = rec_parent r
         \<and> update_outcome w' = update_outcome w
         \<and> storage_writes w' \<le> storage_writes w + 1
         \<and> (res = None \<longrightarrow> storage_writes w' = storage_writes w
               + (if rec_isDirty (st r) \<and> pending_stored (st r) then 1 else 0))"
proof (cases "rec_isDirty (st r)")
  case False
  then show ?thesis using assms by (simp add: flush_own_clean)
next
  case True
  show ?thesis
  proof (cases "first_error (map (\<lambda>f. fd_pre_update f (rec_data (st r)) (rec_changes (st r)))
                               (md_fields (rec_model (st r))))")
    case (Some e)
    then have "flush_own r w = (Some e, Record ((st r)\<lparr> rec_isDirty := False \<rparr>) (rec_parent r), w)"
      using True by (simp add: flush_own_def Let_def)
    then show ?thesis
      using assms by auto
  next
    case None
    show ?thesis
    proof (cases "build_update (md_fields (rec_model (st r))) (st r) []")
      case (Inl e)
      then have "flush_own r w = (Some e, Record ((st r)\<lparr> rec_isDirty := False \<rparr>) (rec_parent r), w)"
        using True None by (simp add: flush_own_def Let_def)
      then show ?thesis
        using assms by auto
    next
      case (Inr upd)
      have ne: "(upd \<noteq> []) = pending_stored (st r)"
        using build_update_nonempty [OF Inr] by (simp add: pending_stored_def)
      show ?thesis
        using assms True None Inr ne
        by (auto simp: flush_own_def Let_def split: option.splits if_splits)
    qed
  qed
qed

lemma flush_chain_clean: "chain_clean r \<Longrightarrow> flush r w = (None, r, w)"
  by (induction r w rule: flush.induct) (simp_all add: flush_own_clean)

lemma chain_clean_flush_own:
  "flush_own r w = (res, r', w') \<Longrightarrow>
   chain_clean r' = (case rec_parent r of None \<Rightarrow> True | Some p \<Rightarrow> chain_clean p)"
  using flush_own_result [of r w res r' w']
  by (cases r'; cases "rec_parent r'") auto

lemma flush_result:
  "flush r w = (res, r', w') \<Longrightarrow>
   update_outcome w' = update_outcome w
   \<and> (res = None \<longrightarrow> chain_clean r' \<and> storage_writes w' = storage_writes w + chain_writes r)"
proof (induction r w arbitrary: res r' w' rule: flush.induct)
  case (1 s w)
  then show ?case
    using flush_own_result [of "Record s None" w res r' w']
      chain_clean_flush_own [of "Record s None" w res r' w']
    by simp
next
  case (2 s p w)
  obtain e p1 w1 where f: "flush p w = (e, p1, w1)" by (metis prod_cases3)
  note ih = "2.IH" [OF f]
  show ?case
  proof (cases e)
    case None
    then have o: "flush_own (Record s (Some p1)) w1 = (res, r', w')"
      using "2.prems" f by simp
    show ?thesis
      using ih None flush_own_result [OF o] chain_clean_flush_own [OF o]
      by simp
  next
    case (Some a)
    then show ?thesis using "2.prems" f ih by auto
  qed
qed

lemma rec_changes_flush_own_failed:
  assumes "rec_isDirty (st r)" "own_flush_fails r w e"
  shows "\<exists>w'. flush_own r w = (Some e, Record ((st r)\<lparr> rec_isDirty := False \<rparr>) (rec_parent r), w')"
proof (cases "build_update (md_fields (rec_model (st r))) (st r) []")
  case (Inl e')
  then show ?thesis
    using assms by (simp add: own_flush_fails_def flush_own_def Let_def)
next
  case (Inr upd)
  have rp: "read_property (Record ((st r)\<lparr> rec_isDirty := False \<rparr>) (rec_parent r)) ''id''
              = read_property r ''id''"
    by (cases r) (simp add: own_field_def field_get_def split: option.splits Record.splits)
  show ?thesis
    using assms Inr rp by (simp add: own_flush_fails_def flush_own_def Let_def)
qed

lemma flush_ancestors_clean: "ancestors_clean r \<Longrightarrow> flush r w = flush_own r w"
  by (cases r; cases "rec_parent r") (auto simp: ancestors_clean_def flush_chain_clean)

text \<open>
  C2. What the code does when a flush fails. For a dirty record whose ancestors are clean
  and whose field validation throws, or whose storage update is rejected: \<^verbatim>\<open>flush\<close> rejects
  with that error and the pending changes are kept, but the dirty flag, cleared at the
  start of the flush, stays cleared, so that an immediately following \<^verbatim>\<open>flush\<close> resolves
  without touching storage.
\<close>

theorem flush_failure_clears_dirty_flag:
  assumes "rec_isDirty (st r)" "ancestors_clean r" "own_flush_fails r w e"
  shows "case flush r w of
           (res, r', w') \<Rightarrow>
             res = Some e \<and> rec_changes (st r') = rec_changes (st r)
             \<and> \<not> rec_isDirty (st r')
             \<and> flush r' w' = (None, r', w')"
proof -
  obtain w' where f: "flush_own r w = (Some e, Record ((st r)\<lparr> rec_isDirty := False \<rparr>) (rec_parent r), w')"
    using rec_changes_flush_own_failed [OF assms(1,3)] by blast
  have c: "chain_clean (Record ((st r)\<lparr> rec_isDirty := False \<rparr>) (rec_parent r))"
    using assms(2) by (cases "rec_parent r") (simp_all add: ancestors_clean_def)
  show ?thesis
    using f c flush_ancestors_clean [OF assms(2), of w] flush_chain_clean [OF c, of w']
    by simp
qed

lemma own_field_field_set [simp]: "own_field (field_set s f v) k = own_field s k"
  by (simp add: own_field_def field_set_def)

lemma rec_model_field_set [simp]: "rec_model (field_set s f v) = rec_model s"
  by (simp add: field_set_def)

lemma delete_prop_filter: "delete_prop d k = filter (\<lambda>(k', v). k' \<noteq> k) d"
  by (auto simp: delete_prop_def AList.delete_eq intro: filter_cong)

lemma write_key_unknown: "own_field s k = None \<Longrightarrow> write_key (s, d) k = (s, d)"
  by (simp add: write_key_def)

lemma write_key_known:
  "own_field s k = Some f \<Longrightarrow>
   write_key (s, d) k = (field_set s f (get_prop d k), delete_prop d k)"
  by (simp add: write_key_def)

lemma foldl_write_key:
  "foldl write_key (s, d) ks = (s', d') \<Longrightarrow>
   d' = filter (\<lambda>(k, v). \<not> (k \<in> set ks \<and> own_field s k \<noteq> None)) d
   \<and> rec_model s' = rec_model s \<and> (\<forall>k. own_field s' k = own_field s k)"
proof (induction ks arbitrary: s d)
  case Nil
  then show ?case by auto
next
  case (Cons k ks)
  show ?case
  proof (cases "own_field s k")
    case None
    then have "foldl write_key (s, d) ks = (s', d')"
      using Cons.prems by (simp add: write_key_unknown)
    from Cons.IH [OF this] None show ?thesis
      by (auto intro: filter_cong)
  next
    case (Some f)
    then have "foldl write_key (field_set s f (get_prop d k), delete_prop d k) ks = (s', d')"
      using Cons.prems by (simp add: write_key_known)
    from Cons.IH [OF this] Some show ?thesis
      by (auto simp: delete_prop_filter intro: filter_cong)
  qed
qed

lemma Record_write_data_result:
  "Record_write_data r d w = (e, r', d', w') \<Longrightarrow>
   d' = filter (\<lambda>(k, v). \<not> recognized r k) d
   \<and> (d' \<noteq> [] \<longrightarrow> e = Some (Error (unknown_fields (map fst d') (md_name (root_model r)))))"
proof (induction r arbitrary: d w e r' d' w')
  case (Record s p)
  obtain s1 d1 where l: "foldl write_key (s, d) (map fst d) = (s1, d1)"
    by (metis surj_pair)
  have "filter (\<lambda>(k, v). \<not> (k \<in> set (map fst d) \<and> own_field s k \<noteq> None)) d
          = filter (\<lambda>(k, v). own_field s k = None) d"
    by (intro filter_cong refl) force
  then have d1: "d1 = filter (\<lambda>(k, v). own_field s k = None) d"
    and m1: "rec_model s1 = rec_model s"
    using foldl_write_key [OF l] by simp_all
  show ?case
  proof (cases p)
    case None
    then show ?thesis
      using Record.prems l d1 m1 by (auto split: if_splits)
  next
    case (Some q)
    show ?thesis
    proof (cases "d1 = []")
      case True
      then have "d' = []"
        using Record.prems l Some by auto
      moreover have "filter (\<lambda>(k, v). \<not> recognized (Record s (Some q)) k) d = []"
        using True d1 by (auto simp: filter_empty_conv)
      ultimately show ?thesis using Some by simp
    next
      case False
      obtain e2 q2 d2 w2 where wd: "Record_write_data q d1 w = (e2, q2, d2, w2)"
        by (metis prod_cases4)
      have ih: "d2 = filter (\<lambda>(k, v). \<not> recognized q k) d1
            \<and> (d2 \<noteq> [] \<longrightarrow> e2 = Some (Error (unknown_fields (map fst d2) (md_name (root_model q)))))"
        using Record.IH [of q d1 w e2 q2 d2 w2] Some wd by simp
      have d2: "d2 = filter (\<lambda>(k, v). \<not> recognized (Record s (Some q)) k) d"
        using ih d1 by (auto intro: filter_cong)
      show ?thesis
      proof (cases "d2 = []")
        case True
        then have "d' = []"
          using Record.prems l Some False wd
          by (auto split: option.splits prod.splits if_splits)
        then show ?thesis using True d2 Some by simp
      next
        case nonempty: False
        then have e2: "e2 = Some (Error (unknown_fields (map fst d2) (md_name (root_model q))))"
          using ih by simp
        have "d' = d2 \<and> e = e2"
          using Record.prems l Some False wd e2
          by (auto split: option.splits prod.splits if_splits)
        then show ?thesis using e2 d2 Some by simp
      qed
    qed
  qed
qed

text \<open>
  C10. \<^verbatim>\<open>write(data)\<close> leaves in the caller's object exactly the keys that neither the
  record's Model nor a Model of its parent chain declares as a field, whatever the outcome.
  When the call resolves the object is empty; when keys survive, the call fails with the
  unknown-field error, which lists exactly the surviving keys (and names the Model at the
  root of the chain, where the check fires first).
\<close>

theorem write_empties_recognized_keys:
  assumes "Record_write r (Some d) w = (e, r', d', w')"
  shows "d' = Some (filter (\<lambda>(k, v). \<not> recognized r k) d)
     \<and> (e = None \<longrightarrow> d' = Some [])
     \<and> (filter (\<lambda>(k, v). \<not> recognized r k) d \<noteq> [] \<longrightarrow>
          e = Some (Error (unknown_fields
                             (map fst (filter (\<lambda>(k, v). \<not> recognized r k) d))
                             (md_name (root_model r)))))"
proof -
  obtain e1 r1 d1 w1 where wd: "Record_write_data r d w = (e1, r1, d1, w1)"
    by (metis prod_cases4)
  note res = Record_write_data_result [OF wd]
  have "d' = Some d1"
    using assms wd by (auto split: option.splits prod.splits)
  moreover have "d1 \<noteq> [] \<longrightarrow> e = e1"
    using assms wd res by (auto split: option.splits prod.splits)
  ultimately show ?thesis using res by auto
qed

lemmas ex_defs = Party_def Person_def party_def person_def fresh_row_def plain_field_def
  required_field_def Users_def quiet_world_def user_with_blank_email_def

lemma sync_person_fresh_row: "sync (person True True) fresh_row = Record
     \<lparr> rec_model = Person, rec_changes = [],
       rec_data = [(''id'', JNum 7), (''nickname'', JStr ''Carl'')],
       rec_isReady = Ready, rec_flushed = False, rec_isDirty = False \<rparr>
     (Some (Record
     \<lparr> rec_model = Party, rec_changes = [],
       rec_data = [(''id'', JNum 7), (''label'', JStr ''new'')],
       rec_isReady = Ready, rec_flushed = False, rec_isDirty = False \<rparr> None))"
  by (simp add: ex_defs sync_own_def sync_field_def hasOwnProperty_def get_prop_def assign_def
      delete_prop_def Let_def)

text \<open>
  Witness for C8: a Person with id 7, a pending nickname and a Party parent, synced with a
  fresh row carrying another id, a nickname and a label.
\<close>

theorem sync_merges_external_data_witness:
  "primary_is_set (st (person True True))
   \<and> distinct (map fd_column (md_fields Person))
   \<and> plain_field ''nickname'' \<in> set (md_fields Person)
   \<and> appears_in fresh_row (plain_field ''nickname'')
   \<and> fd_column (plain_field ''nickname'') \<noteq> md_primaryColumn Person
   \<and> get_prop (rec_data (st (sync (person True True) fresh_row))) ''id'' = JNum 7
   \<and> get_prop (rec_data (st (sync (person True True) fresh_row))) ''nickname'' = JStr ''Carl''
   \<and> \<not> hasOwnProperty (rec_changes (st (sync (person True True) fresh_row))) ''nickname''
   \<and> rec_parent (sync (person True True) fresh_row) = Some (sync (party True) fresh_row)"
  using sync_merges_external_data [of "person True True" fresh_row]
  by (simp add: ex_defs sync_own_def sync_field_def hasOwnProperty_def get_prop_def assign_def
      delete_prop_def Let_def primary_is_set_def appears_in_def incoming_key_def)

text \<open>
  The failing input for C2: a user whose pending e-mail is blank, on a Model that requires
  the e-mail. The flush rejects, the change is kept, the flag is cleared and a second
  flush is a no-op.
\<close>

theorem flush_failure_clears_dirty_flag_witness:
  "rec_isDirty (st user_with_blank_email) \<and> ancestors_clean user_with_blank_email
   \<and> own_flush_fails user_with_blank_email quiet_world (Error ''Field email is required'')
   \<and> flush user_with_blank_email quiet_world =
       (Some (Error ''Field email is required''),
        Record \<lparr> rec_model = Users, rec_changes = [(''email'', JStr '''')],
          rec_data = [(''id'', JNum 1), (''email'', JStr ''a@example.com'')],
          rec_isReady = Ready, rec_flushed = False, rec_isDirty = False \<rparr> None,
        quiet_world)
   \<and> flush (Record \<lparr> rec_model = Users, rec_changes = [(''email'', JStr '''')],
          rec_data = [(''id'', JNum 1), (''email'', JStr ''a@example.com'')],
          rec_isReady = Ready, rec_flushed = False, rec_isDirty = False \<rparr> None) quiet_world =
       (None,
        Record \<lparr> rec_model = Users, rec_changes = [(''email'', JStr '''')],
          rec_data = [(''id'', JNum 1), (''email'', JStr ''a@example.com'')],
          rec_isReady = Ready, rec_flushed = False, rec_isDirty = False \<rparr> None,
        quiet_world)"
proof -
  have h1: "rec_isDirty (st user_with_blank_email)"
    by (simp add: ex_defs)
  have h2: "ancestors_clean user_with_blank_email"
    by (simp add: ex_defs ancestors_clean_def)
  have h3: "own_flush_fails user_with_blank_email quiet_world (Error ''Field email is required'')"
    by (simp add: ex_defs own_flush_fails_def hasOwnProperty_def get_prop_def)
  have f: "flush user_with_blank_email quiet_world =
       (Some (Error ''Field email is required''),
        Record \<lparr> rec_model = Users, rec_changes = [(''email'', JStr '''')],
          rec_data = [(''id'', JNum 1), (''email'', JStr ''a@example.com'')],
          rec_isReady = Ready, rec_flushed = False, rec_isDirty = False \<rparr> None,
        quiet_world)"
    by (simp add: ex_defs flush_own_def hasOwnProperty_def get_prop_def Let_def)
  show ?thesis
    using h1 h2 h3 f flush_failure_clears_dirty_flag [OF h1 h2 h3]
    by (simp add: user_with_blank_email_def)
qed

text \<open>
  C7 (as amended). A record that is clean and whose ancestors are clean is flushed
  without any effect at all and is returned unchanged. When a flush resolves, it has
  performed one storage write for every dirty record of the parent chain with a pending
  change on a stored field (exactly one for such a record without parent), and an
  immediately following flush performs none.
\<close>

theorem flush_idempotent:
  "(chain_clean r \<longrightarrow> flush r w = (None, r, w))
   \<and> (flush r w = (None, r1, w1) \<longrightarrow>
        flush r1 w1 = (None, r1, w1)
        \<and> storage_writes w1 = storage_writes w + chain_writes r)
   \<and> (rec_parent r = None \<and> rec_isDirty (st r) \<and> pending_stored (st r)
        \<and> flush r w = (None, r1, w1) \<longrightarrow>
        storage_writes w1 = storage_writes w + 1)"
proof -
  have a: "chain_clean r \<longrightarrow> flush r w = (None, r, w)"
    by (simp add: flush_chain_clean)
  have b: "flush r w = (None, r1, w1) \<longrightarrow>
        flush r1 w1 = (None, r1, w1)
        \<and> storage_writes w1 = storage_writes w + chain_writes r"
    using flush_result [of r w None r1 w1] flush_chain_clean [of r1 w1] by simp
  have c: "rec_parent r = None \<and> rec_isDirty (st r) \<and> pending_stored (st r)
        \<and> flush r w = (None, r1, w1) \<longrightarrow>
        storage_writes w1 = storage_writes w + 1"
    using flush_result [of r w None r1 w1] by (cases r) auto
  show ?thesis using a b c by blast
qed

lemma flush_party_dirty:
  "flush (party True) quiet_world =
     (None,
      Record \<lparr> rec_model = Party, rec_changes = [],
        rec_data = [(''id'', JNum 7), (''label'', JStr ''x'')],
        rec_isReady = Ready, rec_flushed = True, rec_isDirty = False \<rparr> None,
      quiet_world\<lparr> effects := [StorageUpdate ''Party'' (JNum 7) [(''label'', JStr ''x'')],
                                Emit ''Party'' ''update''] \<rparr>)"
  by (simp add: ex_defs flush_own_def hasOwnProperty_def get_prop_def assign_def Let_def
      own_field_def field_get_def post_update_hooks_def log_effect_def)

text \<open>
  Witness for C7: a clean and a dirty Party record.
\<close>

theorem flush_idempotent_witness:
  "chain_clean (party False)
   \<and> flush (party False) quiet_world = (None, party False, quiet_world)
   \<and> rec_parent (party True) = None \<and> rec_isDirty (st (party True))
   \<and> pending_stored (st (party True))
   \<and> fst (flush (party True) quiet_world) = None
   \<and> storage_writes (snd (snd (flush (party True) quiet_world))) = 1
   \<and> flush (fst (snd (flush (party True) quiet_world))) (snd (snd (flush (party True) quiet_world)))
       = (None, snd (flush (party True) quiet_world))"
proof -
  have h1: "chain_clean (party False)" by (simp add: party_def)
  have h2: "rec_parent (party True) = None \<and> rec_isDirty (st (party True))
     \<and> pending_stored (st (party True))"
    by (simp add: ex_defs pending_stored_def hasOwnProperty_def)
  show ?thesis
    using h1 h2
      flush_idempotent [of "party False" quiet_world "party False" quiet_world]
      flush_idempotent [of "party True" quiet_world
        "fst (snd (flush (party True) quiet_world))" "snd (snd (flush (party True) quiet_world))"]
    by (simp add: flush_party_dirty storage_writes_def)
qed

lemma quiet_world_sel:
  "effects quiet_world = []"
  "update_outcome quiet_world = (\<lambda>log t i u. None)"
  by (simp_all add: quiet_world_def)

lemma flush_person_clean_dirty_parent:
  "flush (person False True) quiet_world =
     (None,
      Record \<lparr> rec_model = Person, rec_changes = [],
        rec_data = [(''id'', JNum 7), (''nickname'', JStr ''Bert'')],
        rec_isReady = Ready, rec_flushed = False, rec_isDirty = False \<rparr>
       (Some (Record \<lparr> rec_model = Party, rec_changes = [],
                rec_data = [(''id'', JNum 7), (''label'', JStr ''x'')],
                rec_isReady = Ready, rec_flushed = True, rec_isDirty = False \<rparr> None)),
      quiet_world\<lparr> effects := [StorageUpdate ''Party'' (JNum 7) [(''label'', JStr ''x'')],
                                Emit ''Party'' ''update''] \<rparr>)"
  by (simp add: person_def flush_party_dirty flush_own_def)

lemma flush_person_dirty:
  "flush (person True True) quiet_world =
     (None,
      Record \<lparr> rec_model = Person, rec_changes = [],
        rec_data = [(''id'', JNum 7), (''nickname'', JStr ''Al'')],
        rec_isReady = Ready, rec_flushed = True, rec_isDirty = False \<rparr>
       (Some (Record \<lparr> rec_model = Party, rec_changes = [],
                rec_data = [(''id'', JNum 7), (''label'', JStr ''x'')],
                rec_isReady = Ready, rec_flushed = True, rec_isDirty = False \<rparr> None)),
      quiet_world\<lparr> effects := [StorageUpdate ''Party'' (JNum 7) [(''label'', JStr ''x'')],
                                Emit ''Party'' ''update'',
                                StorageUpdate ''Person'' (JNum 7) [(''nickname'', JStr ''Al'')],
                                Emit ''Person'' ''update''] \<rparr>)"
  by (simp add: person_def flush_party_dirty flush_own_def Person_def plain_field_def
      quiet_world_sel hasOwnProperty_def get_prop_def assign_def Let_def own_field_def
      field_get_def post_update_hooks_def log_effect_def)

text \<open>
  Counterexample to C7 as stated: a dirty Person whose Party parent is dirty too is written
  with two storage updates (parent table, then child table) by two flushes in a row; and
  flushing a clean Person whose parent is dirty performs a storage update.
\<close>

theorem flush_twice_counterexample:
  "rec_isDirty (st (person True True))
   \<and> (case flush (person True True) quiet_world of
        (e1, r1, w1) \<Rightarrow>
          (case flush r1 w1 of
             (e2, r2, w2) \<Rightarrow> e1 = None \<and> e2 = None \<and> storage_writes w2 = 2))
   \<and> \<not> rec_isDirty (st (person False True))
   \<and> storage_writes (snd (snd (flush (person False True) quiet_world))) = 1"
proof -
  have d: "rec_isDirty (st (person True True))" "\<not> rec_isDirty (st (person False True))"
    by (simp_all add: person_def)
  have twice: "case flush (person True True) quiet_world of
        (e1, r1, w1) \<Rightarrow>
          (case flush r1 w1 of
             (e2, r2, w2) \<Rightarrow> e1 = None \<and> e2 = None \<and> storage_writes w2 = 2)"
    by (simp add: flush_person_dirty flush_own_def storage_writes_def)
  have once: "storage_writes (snd (snd (flush (person False True) quiet_world))) = 1"
    by (simp add: flush_person_clean_dirty_parent storage_writes_def)
  show ?thesis using d twice once by blast
qed

lemma recognized_person:
  "recognized (person False False) k = (k = ''id'' \<or> k = ''nickname'' \<or> k = ''label'')"
  by (auto simp: person_def party_def Person_def Party_def plain_field_def own_field_def)

text \<open>
  Witness for C10: a Person with a Party parent, written with a known and an unknown key,
  and with known keys only.
\<close>

theorem write_empties_recognized_keys_witness:
  "fst (snd (snd (Record_write (person False False) (Some mixed_data) quiet_world)))
      = Some [(''bogus'', JNum 1)]
   \<and> fst (Record_write (person False False) (Some mixed_data) quiet_world)
      = Some (Error ''Field bogus does not exist on model Party'')
   \<and> fst (Record_write (person False False) (Some known_data) quiet_world) = None
   \<and> fst (snd (snd (Record_write (person False False) (Some known_data) quiet_world))) = Some []"
proof -
  have m: "filter (\<lambda>(k, v). \<not> recognized (person False False) k) mixed_data = [(''bogus'', JNum 1)]"
    by (simp add: recognized_person mixed_data_def)
  have k: "filter (\<lambda>(k, v). \<not> recognized (person False False) k) known_data = []"
    by (simp add: recognized_person known_data_def)
  have r: "md_name (root_model (person False False)) = ''Party''"
    by (simp add: person_def party_def Party_def)
  define X where "X = Record_write (person False False) (Some mixed_data) quiet_world"
  define Y where "Y = Record_write (person False False) (Some known_data) quiet_world"
  have px: "Record_write (person False False) (Some mixed_data) quiet_world
              = (fst X, fst (snd X), fst (snd (snd X)), snd (snd (snd X)))"
    by (simp add: X_def)
  have py: "Record_write (person False False) (Some known_data) quiet_world
              = (fst Y, fst (snd Y), fst (snd (snd Y)), snd (snd (snd Y)))"
    by (simp add: Y_def)
  have x: "fst (snd (snd X)) = Some [(''bogus'', JNum 1)]
           \<and> fst X = Some (Error ''Field bogus does not exist on model Party'')"
    using write_empties_recognized_keys [OF px]
    by (simp add: m r unknown_fields_def join_keys_def)
  have ok: "fst Y = None"
    unfolding Y_def
    by (simp add: ex_defs known_data_def flush_own_def hasOwnProperty_def get_prop_def assign_def
        delete_prop_def Let_def own_field_def field_get_def field_set_def write_key_def
        post_update_hooks_def log_effect_def)
  have y: "fst (snd (snd Y)) = Some []"
    using write_empties_recognized_keys [OF py] ok by simp
  show ?thesis
    using x ok y unfolding X_def Y_def by blast
qed

lemma allocate_tracked:
  assumes "\<not> mc_abstract (core m)" "allocate_route (core m) d ig = NoRoute"
    and "truthy (get_prop d ''id'')"
    and "map_of (mc_entities (core m)) (get_prop d ''id'') = Some a"
  shows "allocate m d ig h = (Inr (Instance a), m, set_object a (sync (object_at h a) d) h)"
  using assms by (cases m) (simp add: allocate_def checkAbstract_def)

lemma set_object_set_object [simp]: "set_object a r (set_object a r' h) = set_object a r h"
  by (simp add: set_object_def)

lemma object_at_set_object [simp]: "object_at (set_object a r h) a = r"
  by (simp add: set_object_def)

lemma next_ref_set_object [simp]: "next_ref (set_object a r h) = next_ref h"
  by (simp add: set_object_def)

lemma set_object_same [simp]: "set_object a (object_at h a) h = h"
  by (simp add: set_object_def)

lemma allocate_all_tracked:
  assumes "\<not> mc_abstract (core m)" "truthy k" "map_of (mc_entities (core m)) k = Some a"
    and "\<forall>d\<in>set ds. get_prop d ''id'' = k \<and> allocate_route (core m) d ig = NoRoute"
  shows "allocate_all m ds ig h =
           (replicate (length ds) (Inr (Instance a)), m,
            set_object a (foldl sync (object_at h a) ds) h)"
  using assms(4)
proof (induction ds arbitrary: h)
  case Nil
  then show ?case by simp
next
  case (Cons d ds)
  have one: "allocate m d ig h = (Inr (Instance a), m, set_object a (sync (object_at h a) d) h)"
    using allocate_tracked [of m d ig a h] assms(1-3) Cons.prems by simp
  have rest: "allocate_all m ds ig (set_object a (sync (object_at h a) d) h) =
           (replicate (length ds) (Inr (Instance a)), m,
            set_object a (foldl sync (object_at (set_object a (sync (object_at h a) d) h) a) ds)
              (set_object a (sync (object_at h a) d) h))"
    using Cons.IH [of "set_object a (sync (object_at h a) d) h"] Cons.prems by simp
  show ?case
    using one rest by simp
qed

lemma construct_registers:
  "construct c superModel d parent h = (a, m', h') \<Longrightarrow> truthy (get_prop d ''id'') \<Longrightarrow>
   map_of (mc_entities (core m')) (get_prop d ''id'') = Some a \<and> a = next_ref h
   \<and> next_ref h' = next_ref h + 1"
  by (auto simp: construct_def Let_def new_object_def update_conv' split: prod.splits)

lemma allocate_here_registers:
  "allocate_here m d h = (Inr a, m', h') \<Longrightarrow> truthy (get_prop d ''id'') \<Longrightarrow>
   map_of (mc_entities (core m')) (get_prop d ''id'') = Some a"
proof (cases m)
  case (Model c superModel)
  assume al: "allocate_here m d h = (Inr a, m', h')" and t: "truthy (get_prop d ''id'')"
  show ?thesis
  proof (cases "map_of (mc_entities c) (get_prop d ''id'')")
    case (Some b)
    then show ?thesis
      using al t Model by (auto split: option.splits)
  next
    case None
    show ?thesis
    proof (cases superModel)
      case no_super: None
      then show ?thesis
        using al t Model None construct_registers [of c None d None h]
        by (auto split: option.splits prod.splits)
    next
      case (Some p)
      then show ?thesis
        using al t Model None
        by (auto split: option.splits prod.splits sum.splits dest: construct_registers)
    qed
  qed
qed

lemma allocate_registers:
  "allocate m d ig h = (Inr (Instance a), m', h') \<Longrightarrow> truthy (get_prop d ''id'') \<Longrightarrow>
   map_of (mc_entities (core m')) (get_prop d ''id'') = Some a"
  by (auto simp: allocate_def split: option.splits route.splits prod.splits sum.splits
      dest: allocate_here_registers)

text \<open>
  C5. On a Model that is not abstract, for a key that the identity map tracks, every
  \<^verbatim>\<open>allocate\<close> call that carries this key and is not routed to a child Model returns the
  tracked instance; the Model, and with it the identity map, is left as it was, no object
  is constructed, and the instance holds the data of the calls merged by \<^verbatim>\<open>sync\<close>, in
  order. And an \<^verbatim>\<open>allocate\<close> call that returns an instance for data with a primary key
  leaves that instance registered under the key.
\<close>

theorem allocate_identity_map:
  "(\<not> mc_abstract (core m) \<and> truthy k \<and> map_of (mc_entities (core m)) k = Some a
     \<and> (\<forall>d\<in>set ds. get_prop d ''id'' = k \<and> allocate_route (core m) d ig = NoRoute) \<longrightarrow>
      allocate_all m ds ig h =
        (replicate (length ds) (Inr (Instance a)), m,
         set_object a (foldl sync (object_at h a) ds) h))
   \<and> (allocate m d ig h = (Inr (Instance a), m', h') \<and> truthy (get_prop d ''id'') \<longrightarrow>
      map_of (mc_entities (core m')) (get_prop d ''id'') = Some a)"
  using allocate_all_tracked [of m k a ds ig h] allocate_registers [of m d ig h a m' h']
  by blast

lemma inserts_log_effect [simp]:
  "inserts (log_effect e w) = inserts w @ (case insert_of e of None \<Rightarrow> [] | Some x \<Rightarrow> [x])"
  by (simp add: inserts_def log_effect_def map_filter_def split: option.splits)

lemma transactional_log_effect [simp]: "transactional (log_effect e w) = transactional w"
  by (simp add: log_effect_def)



lemma rec_changes_sync_field_empty:
  "rec_changes s = [] \<Longrightarrow> rec_changes (sync_field d s f) = []"
  by (simp add: sync_field_def Let_def delete_prop_def)

lemma rec_changes_foldl_sync_field_empty:
  "rec_changes s = [] \<Longrightarrow> rec_changes (foldl (sync_field d) s fs) = []"
  by (induction fs arbitrary: s) (simp_all add: rec_changes_sync_field_empty)

lemma Record_new_state:
  "rec_model (st (Record_new info d p)) = info
   \<and> rec_changes (st (Record_new info d p)) = []
   \<and> rec_data (st (Record_new info d p))
       = rec_data (foldl (sync_field d) (blank_state info) (md_fields info))"
proof -
  have "st (sync (Record (blank_state info) p) d) = sync_own d (blank_state info)"
    by (cases p) simp_all
  then show ?thesis
    by (cases "sync (Record (blank_state info) p) d")
      (simp add: Record_new_def blank_state_def sync_own_def Let_def
        rec_changes_foldl_sync_field_empty)
qed




lemma same_schema_refl [simp]: "same_schema c c"
  by (simp add: same_schema_def)

lemma same_schema_entities [simp]: "same_schema (c\<lparr> mc_entities := e \<rparr>) c"
  by (simp add: same_schema_def)


lemma rec_data_Record_new_parent:
  "rec_data (st (Record_new info d p)) = rec_data (st (Record_new info d None))"
  by (simp add: Record_new_state)




















lemmas model_defs = Animal_def Dog_def animal_core_def dog_core_def users_core_def
  no_objects_def rex_def user_row_def Users_def plain_field_def required_field_def
  blank_state_def

lemmas eval_defs = hasOwnProperty_def get_prop_def assign_def delete_prop_def Let_def
  own_field_def field_get_def field_set_def sync_own_def sync_field_def Record_new_def
  construct_def new_object_def set_object_def checkAbstract_def entities_set_def

lemma users_first_allocate:
  "allocate (Model users_core None) (user_row ''Ann'') False no_objects =
     (Inr (Instance 0),
      Model (users_core\<lparr> mc_entities := [(JNum 1, 0)] \<rparr>) None,
      \<lparr> object_at = (object_at no_objects)
          (0 := Record \<lparr> rec_model = Users, rec_changes = [],
                          rec_data = user_row ''Ann'', rec_isReady = Ready,
                          rec_flushed = False, rec_isDirty = False \<rparr> None),
        next_ref = 1 \<rparr>)"
  by (simp add: allocate_def allocate_route_def discField_def names_child_def nullish_def
      model_defs eval_defs)

lemmas create_defs = create_record_def insert_row_def insert_returning_def generated_id_def
  settle_created_def log_effect_def quiet_world_def first_error.simps nullish_def

lemma transparent_plain_field: "transparent (plain_field n)"
  by (simp add: transparent_def plain_field_def)

lemma transparent_discriminator:
  "transparent ((plain_field n)\<lparr> fd_isDiscriminator := True \<rparr>)"
  by (simp add: transparent_def plain_field_def)

lemma create_dog:
  "\<exists>m h w. create (Model dog_core (Some (Model animal_core None))) rex no_objects quiet_world
             = (Inr 2, m, [(''name'', JStr ''Rex''), (''breed'', JStr ''Collie''), (''id'', JNum 1)],
                h, w)
           \<and> inserts w =
               [(''animal'', [(''name'', JStr ''Rex''), (''_inherit'', JStr ''Dog'')]),
                (''dog'', [(''id'', JNum 1), (''breed'', JStr ''Collie'')])]"
  by (simp add: create_defs model_defs eval_defs inserts_def map_filter_def)






text \<open>
  Witness for C5: three rows with id 1 allocated on Users; the first constructs object 0
  and registers it, the other two return object 0.
\<close>

theorem allocate_identity_map_witness:
  "\<not> mc_abstract (core tracked_users) \<and> truthy (JNum 1)
   \<and> map_of (mc_entities (core tracked_users)) (JNum 1) = Some 0
   \<and> get_prop (user_row ''Bea'') ''id'' = JNum 1
   \<and> allocate_route (core tracked_users) (user_row ''Bea'') False = NoRoute
   \<and> get_prop (user_row ''Cid'') ''id'' = JNum 1
   \<and> allocate_route (core tracked_users) (user_row ''Cid'') False = NoRoute
   \<and> allocate (Model users_core None) (user_row ''Ann'') False no_objects
       = (Inr (Instance 0), tracked_users, one_user)
   \<and> allocate_all tracked_users [user_row ''Bea'', user_row ''Cid''] False one_user
       = ([Inr (Instance 0), Inr (Instance 0)], tracked_users,
          set_object 0 (sync (sync (object_at one_user 0) (user_row ''Bea'')) (user_row ''Cid''))
            one_user)
   \<and> next_ref (set_object 0
         (sync (sync (object_at one_user 0) (user_row ''Bea'')) (user_row ''Cid'')) one_user) = 1
   \<and> rec_data (st (sync (sync (object_at one_user 0) (user_row ''Bea'')) (user_row ''Cid'')))
       = user_row ''Cid''"
proof -
  have h1: "\<not> mc_abstract (core tracked_users)" "truthy (JNum 1)"
    "map_of (mc_entities (core tracked_users)) (JNum 1) = Some 0"
    by (simp_all add: tracked_users_def users_core_def)
  have h2: "get_prop (user_row ''Bea'') ''id'' = JNum 1"
    "get_prop (user_row ''Cid'') ''id'' = JNum 1"
    by (simp_all add: user_row_def get_prop_def)
  have h3: "allocate_route (core tracked_users) (user_row n) False = NoRoute" for n
    by (simp add: tracked_users_def allocate_route_def discField_def names_child_def
        nullish_def model_defs eval_defs)
  have h4: "\<forall>d\<in>set [user_row ''Bea'', user_row ''Cid''].
              get_prop d ''id'' = JNum 1 \<and> allocate_route (core tracked_users) d False = NoRoute"
    using h2 h3 by simp
  have first: "allocate (Model users_core None) (user_row ''Ann'') False no_objects
       = (Inr (Instance 0), tracked_users, one_user)"
    by (simp add: users_first_allocate tracked_users_def one_user_def)
  have merged: "rec_data (st (sync (sync (object_at one_user 0) (user_row ''Bea''))
                                (user_row ''Cid''))) = user_row ''Cid''"
    by (simp add: one_user_def model_defs eval_defs)
  show ?thesis
    using h1 h2 h3 [of "''Bea''"] h3 [of "''Cid''"] h4 first merged
      allocate_identity_map [where m = tracked_users and k = "JNum 1" and a = 0
        and ds = "[user_row ''Bea'', user_row ''Cid'']" and ig = False and h = one_user
        and d = "user_row ''Bea''" and m' = tracked_users
        and h' = "set_object 0 (sync (object_at one_user 0) (user_row ''Bea'')) one_user"]
    by (simp add: one_user_def)
qed

end
